theory Spec2Isabelle
  imports Main "HOL-Library.AList" "HOL-Library.Code_Target_Numeral"
begin

section \<open>JavaScript values\<close>

text \<open>
  \<^verbatim>\<open>src/posts.js\<close> handles loosely typed values: a post is a bag of fields, an id may be
  a number or its decimal string, and every test is a truthiness test. The values of
  the model are \<open>undefined\<close>, \<open>null\<close>, booleans, numbers, strings, arrays (with their
  named properties) and plain objects (fields in insertion order).

  Numbers are \<open>NaN\<close>, the two infinities and the doubles whose value is an integer.
  \<open>Fin i\<close> stands for the double nearest to \<open>i\<close>, which is \<open>i\<close> itself up to \<open>2^53\<close> in
  magnitude; every operation on numbers rounds as IEEE 754 does. Fractions are not
  values of the model, and \<open>-0\<close> is identified with \<open>0\<close> (no operation of the file tells
  them apart). Strings are sequences of bytes, and white space is the ASCII white space.
  Functions, symbols and objects with accessor properties are not values of the model.
\<close>

datatype jsnum = NaN | PosInf | NegInf | Fin int

datatype jsval =
    JUndefined
  | JNull
  | JBool bool
  | JNum jsnum
  | JStr string
  | JArr "jsval list" "(string \<times> jsval) list"
  | JObj "(string \<times> jsval) list"

datatype error = TypeError | External string

type_synonym 'a result = "error + 'a"

text \<open>Sequencing of fallible steps: the first error ends the chain, as in \<^verbatim>\<open>async.waterfall\<close>.\<close>

definition andThen :: "'a result \<Rightarrow> ('a \<Rightarrow> 'b result) \<Rightarrow> 'b result" where
  "andThen r f = (case r of Inl e \<Rightarrow> Inl e | Inr x \<Rightarrow> f x)"

subsection \<open>Doubles\<close>

text \<open>The number of binary digits of a natural number.\<close>

fun bit_len :: "nat \<Rightarrow> nat" where
  "bit_len n = (if n = 0 then 0 else Suc (bit_len (n div 2)))"

text \<open>
  The double nearest to an integer: exact up to \<open>2^53\<close>, beyond that the 53 leading bits,
  rounded to nearest with ties to the even mantissa, and an infinity from \<open>2^1024\<close> on.
\<close>

definition round_double :: "int \<Rightarrow> jsnum" where
  "round_double i =
     (if \<bar>i\<bar> \<le> 9007199254740992 then Fin i
      else
        let a = nat \<bar>i\<bar>;
            e = bit_len a - 53;
            q = a div 2 ^ e;
            r = a mod 2 ^ e;
            q1 = (if 2 ^ e < 2 * r \<or> (2 * r = 2 ^ e \<and> odd q) then q + 1 else q);
            v = int (q1 * 2 ^ e)
        in if 2 ^ 1024 \<le> v then (if i < 0 then NegInf else PosInf)
           else Fin (if i < 0 then - v else v))"

fun num_norm :: "jsnum \<Rightarrow> jsnum" where
  "num_norm (Fin i) = round_double i"
| "num_norm x = x"

subsection \<open>Truthiness\<close>

fun num_truthy :: "jsnum \<Rightarrow> bool" where
  "num_truthy NaN = False"
| "num_truthy (Fin i) = (i \<noteq> 0)"
| "num_truthy PosInf = True"
| "num_truthy NegInf = True"

text \<open>\<^verbatim>\<open>ToBoolean\<close>: falsy are \<open>undefined\<close>, \<open>null\<close>, \<open>false\<close>, \<open>0\<close>, \<open>NaN\<close> and the empty string.\<close>

fun truthy :: "jsval \<Rightarrow> bool" where
  "truthy JUndefined = False"
| "truthy JNull = False"
| "truthy (JBool b) = b"
| "truthy (JNum n) = num_truthy n"
| "truthy (JStr s) = (s \<noteq> [])"
| "truthy (JArr xs ps) = True"
| "truthy (JObj ps) = True"

text \<open>\<^verbatim>\<open>a || b\<close>\<close>

definition js_or :: "jsval \<Rightarrow> jsval \<Rightarrow> jsval" where
  "js_or a b = (if truthy a then a else b)"

fun isArray :: "jsval \<Rightarrow> bool" where
  "isArray (JArr xs ps) = True"
| "isArray _ = False"

fun elems :: "jsval \<Rightarrow> jsval list" where
  "elems (JArr xs ps) = xs"
| "elems _ = []"

subsection \<open>Property access\<close>

text \<open>
  Reading a named property. The file reads only plain data names (\<open>pid\<close>, \<open>tid\<close>,
  \<open>votes\<close>, ...) and \<open>length\<close>; a primitive other than \<open>undefined\<close> and \<open>null\<close> has no
  such property and reads as \<open>undefined\<close>.
\<close>

fun field_of :: "jsval \<Rightarrow> string \<Rightarrow> jsval" where
  "field_of (JObj ps) k = (case map_of ps k of None \<Rightarrow> JUndefined | Some v \<Rightarrow> v)"
| "field_of (JArr xs ps) k =
     (if k = ''length'' then JNum (Fin (int (length xs)))
      else case map_of ps k of None \<Rightarrow> JUndefined | Some v \<Rightarrow> v)"
| "field_of (JStr s) k = (if k = ''length'' then JNum (Fin (int (length s))) else JUndefined)"
| "field_of v k = JUndefined"

fun nullish :: "jsval \<Rightarrow> bool" where
  "nullish JUndefined = True"
| "nullish JNull = True"
| "nullish v = False"

text \<open>\<^verbatim>\<open>v.k\<close>: a read from \<open>undefined\<close> or \<open>null\<close> throws.\<close>

definition get_prop :: "jsval \<Rightarrow> string \<Rightarrow> jsval result" where
  "get_prop v k = (if nullish v then Inl TypeError else Inr (field_of v k))"

text \<open>
  \<^verbatim>\<open>v.k = x\<close> under \<^verbatim>\<open>'use strict'\<close> (line 1): objects and arrays take the property, every
  primitive throws. The file assigns plain data names only.
\<close>

fun set_prop :: "jsval \<Rightarrow> string \<Rightarrow> jsval \<Rightarrow> jsval result" where
  "set_prop (JObj ps) k x = Inr (JObj (AList.update k x ps))"
| "set_prop (JArr xs ps) k x = Inr (JArr xs (AList.update k x ps))"
| "set_prop v k x = Inl TypeError"

subsection \<open>Conversion to strings\<close>

definition digit_char :: "nat \<Rightarrow> char" where
  "digit_char d = ''0123456789'' ! (d mod 10)"

fun nat_to_string :: "nat \<Rightarrow> string" where
  "nat_to_string n =
     (if n < 10 then [digit_char n] else nat_to_string (n div 10) @ [digit_char (n mod 10)])"

text \<open>
  \<^verbatim>\<open>Number::toString\<close> prints the shortest decimal number that reads back as the same
  double, the nearest one if there are several. Up to \<open>2^53\<close> that is the integer itself.
  Beyond, the numbers with \<open>k\<close> significant digits next to \<open>a\<close> are tried, for \<open>k\<close> from
  1 on.
\<close>

definition round_trips :: "nat \<Rightarrow> nat \<Rightarrow> bool" where
  "round_trips a v = (round_double (int v) = Fin (int a))"

definition short_value :: "nat \<Rightarrow> nat \<Rightarrow> nat option" where
  "short_value a k =
     (let p = 10 ^ (length (nat_to_string a) - k);
          f = a div p;
          lo = f * p;
          hi = (f + 1) * p
      in if round_trips a lo \<and> round_trips a hi then
           Some (if a - lo < hi - a \<or> (a - lo = hi - a \<and> even f) then lo else hi)
         else if round_trips a lo then Some lo
         else if round_trips a hi then Some hi
         else None)"

fun shortest_from :: "nat \<Rightarrow> nat \<Rightarrow> nat \<Rightarrow> nat" where
  "shortest_from 0 k a = a"
| "shortest_from (Suc n) k a =
     (case short_value a k of Some v \<Rightarrow> v | None \<Rightarrow> shortest_from n (Suc k) a)"

definition shortest :: "nat \<Rightarrow> nat" where
  "shortest a = shortest_from (length (nat_to_string a)) 1 a"

definition strip_zeros :: "string \<Rightarrow> string" where
  "strip_zeros s = rev (dropWhile (\<lambda>c. c = CHR ''0'') (rev s))"

text \<open>Plain digits up to 21 of them, exponent notation beyond.\<close>

definition print_nat :: "nat \<Rightarrow> string" where
  "print_nat a =
     (if a \<le> 9007199254740992 then nat_to_string a
      else
        let ds = nat_to_string (shortest a);
            n = length ds
        in if n \<le> 21 then ds
           else
             let sg = strip_zeros ds
             in (if length sg = 1 then sg else hd sg # CHR ''.'' # tl sg)
                @ ''e+'' @ nat_to_string (n - 1))"

definition int_to_string :: "int \<Rightarrow> string" where
  "int_to_string i = (if i < 0 then CHR ''-'' # print_nat (nat (- i)) else print_nat (nat i))"

fun num_to_string :: "jsnum \<Rightarrow> string" where
  "num_to_string NaN = ''NaN''"
| "num_to_string PosInf = ''Infinity''"
| "num_to_string NegInf = ''-Infinity''"
| "num_to_string (Fin i) =
     (case round_double i of
        Fin j \<Rightarrow> int_to_string j
      | PosInf \<Rightarrow> ''Infinity''
      | NegInf \<Rightarrow> ''-Infinity''
      | NaN \<Rightarrow> ''NaN'')"

fun join :: "string \<Rightarrow> string list \<Rightarrow> string" where
  "join sep [] = []"
| "join sep [s] = s"
| "join sep (s # t # ss) = s @ sep @ join sep (t # ss)"

text \<open>
  \<^verbatim>\<open>ToString\<close>, as string concatenation and \<^verbatim>\<open>parseInt\<close> apply it. An array joins its
  elements with commas, \<open>undefined\<close> and \<open>null\<close> elements giving the empty string.
\<close>

fun to_string :: "jsval \<Rightarrow> string" where
  "to_string JUndefined = ''undefined''"
| "to_string JNull = ''null''"
| "to_string (JBool b) = (if b then ''true'' else ''false'')"
| "to_string (JNum n) = num_to_string n"
| "to_string (JStr s) = s"
| "to_string (JArr xs ps) = join '','' (map (\<lambda>x. if nullish x then [] else to_string x) xs)"
| "to_string (JObj ps) = ''[object Object]''"

subsection \<open>Conversion to numbers\<close>

definition is_ws :: "char \<Rightarrow> bool" where
  "is_ws c = (c \<in> set [CHR 0x09, CHR 0x0A, CHR 0x0B, CHR 0x0C, CHR 0x0D, CHR '' ''])"

definition is_digit :: "char \<Rightarrow> bool" where
  "is_digit c = (c \<in> set ''0123456789'')"

text \<open>The value of a digit is its place in the row of digits.\<close>

definition digit_val :: "char \<Rightarrow> nat" where
  "digit_val c = length (takeWhile (\<lambda>d. d \<noteq> c) ''0123456789'')"

definition digits_val :: "string \<Rightarrow> nat" where
  "digits_val z = foldl (\<lambda>a c. 10 * a + digit_val c) 0 z"

text \<open>
  \<^verbatim>\<open>parseInt(v, 10)\<close>: the argument is converted to a string, leading white space is skipped,
  one sign is read, and the longest run of decimal digits is the value, rounded to a
  double; no digit gives \<open>NaN\<close>. What follows the digits is ignored. (Beyond 20 digits
  the language lets an implementation round the digits first; the model rounds once.)
\<close>

definition parseInt_str :: "string \<Rightarrow> jsnum" where
  "parseInt_str s =
     (let s1 = dropWhile is_ws s;
          neg = (s1 \<noteq> [] \<and> hd s1 = CHR ''-'');
          s2 = (if s1 \<noteq> [] \<and> (hd s1 = CHR ''+'' \<or> hd s1 = CHR ''-'') then tl s1 else s1);
          z = takeWhile is_digit s2
      in if z = [] then NaN
         else round_double (if neg then - int (digits_val z) else int (digits_val z)))"

definition parseInt10 :: "jsval \<Rightarrow> jsnum" where
  "parseInt10 v = parseInt_str (to_string v)"

text \<open>
  \<^verbatim>\<open>ToNumber\<close> is needed in two places only, \<^verbatim>\<open>isNaN(x)\<close> and \<^verbatim>\<open>x > 0\<close>, and both ask for
  the kind of the number, not its value. The kind of a string follows the grammar of
  numeric string literals: optional white space around nothing (zero), a signed decimal
  literal with optional fraction and exponent, a signed \<open>Infinity\<close>, or an unsigned
  hexadecimal, octal or binary literal. It is the kind of the double that the literal
  is rounded to: a literal of at most \<open>2^-1075\<close> is zero, one of at least
  \<open>2^1024 - 2^970\<close> is infinite.
\<close>

datatype numkind = KNaN | KNegInf | KNeg | KZero | KPos | KPosInf

fun num_kind :: "jsnum \<Rightarrow> numkind" where
  "num_kind NaN = KNaN"
| "num_kind PosInf = KPosInf"
| "num_kind NegInf = KNegInf"
| "num_kind (Fin i) =
     (case round_double i of
        Fin j \<Rightarrow> (if j < 0 then KNeg else if j = 0 then KZero else KPos)
      | PosInf \<Rightarrow> KPosInf
      | NegInf \<Rightarrow> KNegInf
      | NaN \<Rightarrow> KNaN)"

text \<open>The kind of the double nearest to \<open>m * 10^ex\<close>, with the sign given.\<close>

definition magnitude_kind :: "bool \<Rightarrow> nat \<Rightarrow> int \<Rightarrow> numkind" where
  "magnitude_kind neg m ex =
     (let inf = (if neg then KNegInf else KPosInf);
          fin = (if neg then KNeg else KPos)
      in if m = 0 then KZero
         else if 309 < ex then inf
         else if ex + int (length (nat_to_string m)) < - 330 then KZero
         else if 0 \<le> ex then (if 2 ^ 1024 - 2 ^ 970 \<le> int m * 10 ^ nat ex then inf else fin)
         else if (2 ^ 1024 - 2 ^ 970) * 10 ^ nat (- ex) \<le> int m then inf
         else if int m * 2 ^ 1075 \<le> 10 ^ nat (- ex) then KZero
         else fin)"

definition radix_val :: "char \<Rightarrow> nat" where
  "radix_val c =
     (let i = length (takeWhile (\<lambda>d. d \<noteq> c) ''0123456789abcdefABCDEF'')
      in if i < 16 then i else i - 6)"

definition trim :: "string \<Rightarrow> string" where
  "trim s = rev (dropWhile is_ws (rev (dropWhile is_ws s)))"

definition radix_kind :: "nat \<Rightarrow> string \<Rightarrow> string \<Rightarrow> numkind" where
  "radix_kind base ds body =
     (if body = [] \<or> list_ex (\<lambda>c. c \<notin> set ds) body then KNaN
      else magnitude_kind False (foldl (\<lambda>a c. base * a + radix_val c) 0 body) 0)"

text \<open>The value of an exponent part that \<open>exponent_ok\<close> accepts.\<close>

definition exponent_val :: "string \<Rightarrow> int" where
  "exponent_val r =
     (if r = [] then 0
      else if hd (tl r) = CHR ''-'' then - int (digits_val (tl (tl r)))
      else if hd (tl r) = CHR ''+'' then int (digits_val (tl (tl r)))
      else int (digits_val (tl r)))"

definition exponent_ok :: "string \<Rightarrow> bool" where
  "exponent_ok r =
     (r = [] \<or>
      ((hd r = CHR ''e'' \<or> hd r = CHR ''E'') \<and>
       (let r1 = tl r;
            r2 = (if r1 \<noteq> [] \<and> (hd r1 = CHR ''+'' \<or> hd r1 = CHR ''-'') then tl r1 else r1)
        in r2 \<noteq> [] \<and> list_all is_digit r2)))"

definition decimal_kind :: "bool \<Rightarrow> string \<Rightarrow> numkind" where
  "decimal_kind neg body =
     (if body = ''Infinity'' then (if neg then KNegInf else KPosInf)
      else
        let ip = takeWhile is_digit body;
            r1 = dropWhile is_digit body;
            fp = (if r1 \<noteq> [] \<and> hd r1 = CHR ''.'' then takeWhile is_digit (tl r1) else []);
            r2 = (if r1 \<noteq> [] \<and> hd r1 = CHR ''.'' then dropWhile is_digit (tl r1) else r1)
        in if (ip = [] \<and> fp = []) \<or> \<not> exponent_ok r2 then KNaN
           else magnitude_kind neg (digits_val (ip @ fp)) (exponent_val r2 - int (length fp)))"

definition str_kind :: "string \<Rightarrow> numkind" where
  "str_kind s =
     (let t = trim s in
      if t = [] then KZero
      else if take 2 t = ''0x'' \<or> take 2 t = ''0X'' then radix_kind 16 ''0123456789abcdefABCDEF'' (drop 2 t)
      else if take 2 t = ''0o'' \<or> take 2 t = ''0O'' then radix_kind 8 ''01234567'' (drop 2 t)
      else if take 2 t = ''0b'' \<or> take 2 t = ''0B'' then radix_kind 2 ''01'' (drop 2 t)
      else if hd t = CHR ''-'' then decimal_kind True (tl t)
      else if hd t = CHR ''+'' then decimal_kind False (tl t)
      else decimal_kind False t)"

fun to_kind :: "jsval \<Rightarrow> numkind" where
  "to_kind JUndefined = KNaN"
| "to_kind JNull = KZero"
| "to_kind (JBool b) = (if b then KPos else KZero)"
| "to_kind (JNum n) = num_kind n"
| "to_kind (JStr s) = str_kind s"
| "to_kind (JArr xs ps) = str_kind (to_string (JArr xs ps))"
| "to_kind (JObj ps) = KNaN"

text \<open>The global \<^verbatim>\<open>isNaN(v)\<close> and the comparison \<^verbatim>\<open>v > 0\<close>.\<close>

definition js_isNaN :: "jsval \<Rightarrow> bool" where
  "js_isNaN v = (to_kind v = KNaN)"

definition js_gt_zero :: "jsval \<Rightarrow> bool" where
  "js_gt_zero v = (to_kind v = KPos \<or> to_kind v = KPosInf)"

subsection \<open>Arithmetic and strict equality on numbers\<close>

text \<open>The sum of two doubles is the double nearest to their exact sum.\<close>

fun add_norm :: "jsnum \<Rightarrow> jsnum \<Rightarrow> jsnum" where
  "add_norm (Fin a) (Fin b) = round_double (a + b)"
| "add_norm NaN y = NaN"
| "add_norm x NaN = NaN"
| "add_norm PosInf NegInf = NaN"
| "add_norm NegInf PosInf = NaN"
| "add_norm PosInf y = PosInf"
| "add_norm NegInf y = NegInf"
| "add_norm x PosInf = PosInf"
| "add_norm x NegInf = NegInf"

definition num_add :: "jsnum \<Rightarrow> jsnum \<Rightarrow> jsnum" where
  "num_add x y = add_norm (num_norm x) (num_norm y)"

fun num_neg :: "jsnum \<Rightarrow> jsnum" where
  "num_neg NaN = NaN"
| "num_neg PosInf = NegInf"
| "num_neg NegInf = PosInf"
| "num_neg (Fin a) = Fin (- a)"

definition num_sub :: "jsnum \<Rightarrow> jsnum \<Rightarrow> jsnum" where
  "num_sub x y = num_add x (num_neg y)"

text \<open>\<^verbatim>\<open>x === y\<close> on two numbers: \<open>NaN\<close> equals nothing.\<close>

definition num_strict_eq :: "jsnum \<Rightarrow> jsnum \<Rightarrow> bool" where
  "num_strict_eq x y = (x \<noteq> NaN \<and> num_norm x = num_norm y)"

text \<open>\<^verbatim>\<open>a - b\<close> where both operands are numbers already; other operands are not subtracted in the file.\<close>

fun js_sub :: "jsval \<Rightarrow> jsval \<Rightarrow> jsval" where
  "js_sub (JNum x) (JNum y) = JNum (num_sub x y)"
| "js_sub a b = JNum NaN"

section \<open>The collaborators\<close>

text \<open>
  \<^verbatim>\<open>src/posts.js\<close> talks to modules that are not part of it: the database, the topics
  module, the field writer of the posts module, the user module, the utilities and
  the plugins. None of them is under \<^verbatim>\<open>src/\<close>. The data that the first four keep is the
  \<open>world\<close> below, and every call that reaches one of these four is appended to \<open>calls\<close>,
  so that "no backend call" and "a single query" can be stated. The spec leaves open when
  the backend fails; the world holds, for every call, the error it fails with, if any.
\<close>

subsection \<open>Ordered sets\<close>

text \<open>
  Modelled from the spec: the order of the scores of the Ordered Index Store. A score is
  a number ("score = votes"); two numbers compare as doubles, and nothing else is
  smaller than anything.
\<close>

fun norm_less :: "jsnum \<Rightarrow> jsnum \<Rightarrow> bool" where
  "norm_less (Fin a) (Fin b) = (a < b)"
| "norm_less NaN y = False"
| "norm_less x NaN = False"
| "norm_less x NegInf = False"
| "norm_less PosInf y = False"
| "norm_less NegInf y = True"
| "norm_less x PosInf = True"

definition num_less :: "jsnum \<Rightarrow> jsnum \<Rightarrow> bool" where
  "num_less x y = norm_less (num_norm x) (num_norm y)"

fun score_less :: "jsval \<Rightarrow> jsval \<Rightarrow> bool" where
  "score_less (JNum x) (JNum y) = num_less x y"
| "score_less a b = False"

text \<open>
  Modelled from the spec: the Ordered Index Store (module \<^verbatim>\<open>./database\<close>), "named ordered
  sets mapping member to score", with rank "the 0-based position of a member within an
  ordered index by score" and ties in insertion order. A set is the list of its
  (member, score) entries in rank order, each member once.
\<close>

type_synonym zset = "(jsval \<times> jsval) list"

text \<open>
  Modelled from the spec: \<open>add-or-update(set, score, member)\<close>, \<open>remove(set, member)\<close>, the
  score of a member and \<open>rank(set, member)\<close>. A member that is added leaves its old place
  and goes behind the entries whose score is not greater than its own.
\<close>

fun zinsert :: "jsval \<Rightarrow> jsval \<Rightarrow> zset \<Rightarrow> zset" where
  "zinsert m s [] = [(m, s)]"
| "zinsert m s (e # es) = (if score_less s (snd e) then (m, s) # e # es else e # zinsert m s es)"

definition zadd :: "jsval \<Rightarrow> jsval \<Rightarrow> zset \<Rightarrow> zset" where
  "zadd m s es = zinsert m s (AList.delete m es)"

definition zrem :: "jsval \<Rightarrow> zset \<Rightarrow> zset" where
  "zrem m es = AList.delete m es"

definition zscore :: "zset \<Rightarrow> jsval \<Rightarrow> jsval option" where
  "zscore es m = map_of es m"

fun zrank :: "zset \<Rightarrow> jsval \<Rightarrow> nat option" where
  "zrank [] m = None"
| "zrank (e # es) m = (if fst e = m then Some 0 else map_option Suc (zrank es m))"

text \<open>
  Modelled from the spec: the answer of \<open>rank(set, member)\<close> as a value, a number, or \<open>null\<close>
  for what is not a member ("not found").
\<close>

definition rank_value :: "nat option \<Rightarrow> jsval" where
  "rank_value r = (case r of None \<Rightarrow> JNull | Some n \<Rightarrow> JNum (Fin (int n)))"

text \<open>
  Modelled from the spec: \<open>range(set, start, stop, reverse)\<close> of the store. The spec gives
  the signature only; the model returns the members at ranks \<open>start\<close> to \<open>stop\<close>, both
  included, a negative bound counting from the end, and nothing for a bound that is no
  integer.
\<close>

definition zrange :: "zset \<Rightarrow> jsval \<Rightarrow> jsval \<Rightarrow> jsval list" where
  "zrange es start stop =
     (case (parseInt10 start, parseInt10 stop) of
        (Fin a, Fin b) \<Rightarrow>
          (let n = int (length es);
               lo = (if a < 0 then max 0 (n + a) else a);
               hi = (if b < 0 then n + b else min b (n - 1))
           in if hi < lo then [] else map fst (take (nat (hi - lo + 1)) (drop (nat lo) es)))
      | _ \<Rightarrow> [])"

subsection \<open>The world and its operations\<close>

datatype call =
    SortedSetAdd string jsval jsval
  | SortedSetRemove string jsval
  | SortedSetRank string jsval
  | SortedSetRanks string "jsval list"
  | SortedSetsRanks "string list" "jsval list"
  | GetSortedSetRange string jsval jsval
  | GetSortedSetRevRange string jsval jsval
  | GetObjects "string list"
  | GetTopicFields jsval "string list"
  | SetTopicFields jsval "(string \<times> jsval) list"
  | SetPostFields jsval "(string \<times> jsval) list"
  | GetSettings jsval

text \<open>
  Besides the data and the failures, the world holds two things that the spec leaves to
  the backend. \<open>malformed\<close> is the answer of a rank lookup that is not a rank (the
  "malformed index" of the spec), for the sets and members where the store gives one.
  \<open>race\<close> tells, of the errors of tasks that run concurrently, the place of the one that
  comes first ("there is no guarantee about which completes first").
\<close>

record world =
  zsets :: "string \<Rightarrow> zset"
  objects :: "string \<Rightarrow> (string \<times> jsval) list option"
  topics :: "jsval \<Rightarrow> (string \<times> jsval) list"
  settings :: "jsval \<Rightarrow> jsval"
  faults :: "call \<Rightarrow> error option"
  malformed :: "string \<Rightarrow> jsval \<Rightarrow> jsval option"
  race :: "error list \<Rightarrow> nat"
  calls :: "call list"

definition logged :: "call \<Rightarrow> world \<Rightarrow> world" where
  "logged c w = w\<lparr>calls := calls w @ [c]\<rparr>"

text \<open>
  Modelled from the spec: "Backend failure: any failure from the Ordered Index Store or
  Post Accessor, surfaced to the caller of the enclosing operation". A call is logged;
  then it fails with its error, and a failed write changes nothing, or it is carried
  out.
\<close>

definition backend_write :: "call \<Rightarrow> (world \<Rightarrow> world) \<Rightarrow> world \<Rightarrow> unit result \<times> world" where
  "backend_write c change w =
     (case faults w c of
        Some e \<Rightarrow> (Inl e, logged c w)
      | None \<Rightarrow> (Inr (), logged c (change w)))"

text \<open>Modelled from the spec: a read that fails gives its error and no answer.\<close>

definition backend_read :: "call \<Rightarrow> (world \<Rightarrow> 'a) \<Rightarrow> world \<Rightarrow> 'a result \<times> world" where
  "backend_read c answer w =
     (case faults w c of Some e \<Rightarrow> Inl e | None \<Rightarrow> Inr (answer w), logged c w)"

text \<open>
  Modelled from the spec: \<^verbatim>\<open>db.sortedSetAdd(key, score, value)\<close> is \<open>add-or-update\<close> on the set
  named \<open>key\<close>.
\<close>

definition db_sortedSetAdd :: "string \<Rightarrow> jsval \<Rightarrow> jsval \<Rightarrow> world \<Rightarrow> unit result \<times> world" where
  "db_sortedSetAdd key score v =
     backend_write (SortedSetAdd key score v)
       (\<lambda>w. w\<lparr>zsets := (zsets w)(key := zadd v score (zsets w key))\<rparr>)"

text \<open>Modelled from the spec: \<^verbatim>\<open>db.sortedSetRemove(key, value)\<close> is \<open>remove\<close> on the set named \<open>key\<close>.\<close>

definition db_sortedSetRemove :: "string \<Rightarrow> jsval \<Rightarrow> world \<Rightarrow> unit result \<times> world" where
  "db_sortedSetRemove key v =
     backend_write (SortedSetRemove key v) (\<lambda>w. w\<lparr>zsets := (zsets w)(key := zrem v (zsets w key))\<rparr>)"

text \<open>
  Modelled from the spec: what a rank lookup answers for one set and one member, the
  malformed answer where the world holds one, and else the rank of the member or \<open>null\<close>.
\<close>

definition rank_answer :: "world \<Rightarrow> string \<Rightarrow> jsval \<Rightarrow> jsval" where
  "rank_answer w key v =
     (case malformed w key v of Some a \<Rightarrow> a | None \<Rightarrow> rank_value (zrank (zsets w key) v))"




text \<open>
  Modelled from the spec: \<^verbatim>\<open>db.getSortedSetRange\<close> and \<^verbatim>\<open>db.getSortedSetRevRange\<close> are \<open>range\<close>
  on the set named \<open>key\<close>, forward and reverse.
\<close>

definition db_getSortedSetRange :: "string \<Rightarrow> jsval \<Rightarrow> jsval \<Rightarrow> world \<Rightarrow> jsval result \<times> world" where
  "db_getSortedSetRange key start stop =
     backend_read (GetSortedSetRange key start stop) (\<lambda>w. JArr (zrange (zsets w key) start stop) [])"

definition db_getSortedSetRevRange :: "string \<Rightarrow> jsval \<Rightarrow> jsval \<Rightarrow> world \<Rightarrow> jsval result \<times> world" where
  "db_getSortedSetRevRange key start stop =
     backend_read (GetSortedSetRevRange key start stop)
       (\<lambda>w. JArr (zrange (rev (zsets w key)) start stop) [])"

text \<open>
  Modelled from the spec: \<open>getObjectsByKeys(keys)\<close> of the Post Accessor, "same order and
  length as input; missing ids yield an absent marker", here \<open>null\<close>.
\<close>

definition db_getObjects :: "string list \<Rightarrow> world \<Rightarrow> jsval list result \<times> world" where
  "db_getObjects keys =
     backend_read (GetObjects keys)
       (\<lambda>w. map (\<lambda>k. case objects w k of None \<Rightarrow> JNull | Some fs \<Rightarrow> JObj fs) keys)"

text \<open>
  Modelled from the spec: a \<open>fieldMap\<close> stored into a record; each field of the map takes
  its new value and the other fields stay.
\<close>

definition store_fields :: "(string \<times> jsval) list \<Rightarrow> (string \<times> jsval) list \<Rightarrow> (string \<times> jsval) list" where
  "store_fields new old = fold (\<lambda>(k, v). AList.update k v) new old"

text \<open>
  Modelled from the spec: a stored field of a topic, as the Topic collaborator (module
  \<^verbatim>\<open>./topics\<close>) reads it; a field the topic does not store reads as \<open>null\<close>.
\<close>

definition topic_field :: "world \<Rightarrow> jsval \<Rightarrow> string \<Rightarrow> jsval" where
  "topic_field w tid name = (case map_of (topics w tid) name of None \<Rightarrow> JNull | Some v \<Rightarrow> v)"

text \<open>
  Modelled from the spec: \<open>getFields(tid, fieldNames)\<close> of the Topic collaborator, which is
  \<^verbatim>\<open>topics.getTopicFields\<close>. The answer is an object with the fields asked for.
\<close>

definition topics_getTopicFields :: "jsval \<Rightarrow> string list \<Rightarrow> world \<Rightarrow> jsval result \<times> world" where
  "topics_getTopicFields tid names =
     backend_read (GetTopicFields tid names)
       (\<lambda>w. JObj (map (\<lambda>name. (name, topic_field w tid name)) names))"

text \<open>
  Modelled from the spec: \<open>setFields(tid, fieldMap)\<close> of the Topic collaborator, which is
  \<^verbatim>\<open>topics.setTopicFields\<close>.
\<close>

definition topics_setTopicFields :: "jsval \<Rightarrow> (string \<times> jsval) list \<Rightarrow> world \<Rightarrow> unit result \<times> world" where
  "topics_setTopicFields tid data =
     backend_write (SetTopicFields tid data)
       (\<lambda>w. w\<lparr>topics := (topics w)(tid := store_fields data (topics w tid))\<rparr>)"

text \<open>The key of the record of a post, as line 51 builds it.\<close>

definition post_key :: "jsval \<Rightarrow> string" where
  "post_key pid = ''post:'' @ to_string pid"

text \<open>
  Modelled from the spec: \<open>setFields(id, fieldMap)\<close> of the Post Accessor, which is
  \<^verbatim>\<open>Posts.setPostFields\<close> of module \<^verbatim>\<open>./posts/data\<close>. The record of a post is the object
  that \<^verbatim>\<open>getPostsByPids\<close> reads under its key.
\<close>

definition setPostFields :: "jsval \<Rightarrow> (string \<times> jsval) list \<Rightarrow> world \<Rightarrow> unit result \<times> world" where
  "setPostFields pid data =
     backend_write (SetPostFields pid data)
       (\<lambda>w. w\<lparr>objects := (objects w)(post_key pid \<mapsto>
               store_fields data (case objects w (post_key pid) of None \<Rightarrow> [] | Some fs \<Rightarrow> fs))\<rparr>)"




text \<open>
  The collaborators of the decoration pipeline compute on the values they are given
  and are parameters of the model: \<^verbatim>\<open>utils.toISOString\<close>, \<^verbatim>\<open>Posts.parsePost\<close>,
  \<^verbatim>\<open>user.blocks.filter\<close> and \<^verbatim>\<open>plugins.fireHook\<close>. The last three may answer with an error.
\<close>

record env =
  toISOString :: "jsval \<Rightarrow> jsval"
  parsePost :: "jsval \<Rightarrow> jsval result"
  blocks_filter :: "jsval \<Rightarrow> jsval \<Rightarrow> jsval result"
  fireHook :: "string \<Rightarrow> jsval \<Rightarrow> jsval result"

section \<open>The functions of \<^verbatim>\<open>src/posts.js\<close>\<close>

text \<open>
  A function that ends by calling its callback returns the pair of what it passes to
  the callback (\<open>Inl\<close> an error, \<open>Inr\<close> the result) and the world it leaves. \<open>Inl TypeError\<close>
  also stands for an exception thrown by the JavaScript itself.
\<close>

text \<open>
  \<^verbatim>\<open>async.map\<close> and \<^verbatim>\<open>Array.prototype.map\<close> with a function that may fail: the results in
  the order of the elements, or the first error.
\<close>

fun map_result :: "('a \<Rightarrow> 'b result) \<Rightarrow> 'a list \<Rightarrow> 'b list result" where
  "map_result f [] = Inr []"
| "map_result f (x # xs) =
     (case f x of Inl e \<Rightarrow> Inl e
      | Inr y \<Rightarrow> (case map_result f xs of Inl e \<Rightarrow> Inl e | Inr ys \<Rightarrow> Inr (y # ys)))"

text \<open>The errors among the results of some tasks, in the order of the tasks.\<close>

fun errors_of :: "unit result list \<Rightarrow> error list" where
  "errors_of [] = []"
| "errors_of (Inl e # rs) = e # errors_of rs"
| "errors_of (Inr u # rs) = errors_of rs"

text \<open>
  \<^verbatim>\<open>async.parallel\<close> starts all its tasks and calls back once: with the error of the task
  that fails first, or with no error when every task is done. A task that fails does not
  stop the others. Which of several failing tasks is first is not for the source to
  say: the world picks the place of that error among the errors.
\<close>

definition first_error :: "world \<Rightarrow> unit result list \<Rightarrow> unit result" where
  "first_error w rs =
     (if errors_of rs = [] then Inr ()
      else Inl (errors_of rs ! (race w (errors_of rs) mod length (errors_of rs))))"



subsection \<open>\<^verbatim>\<open>Posts.getPidsFromSet\<close> (lines 36 to 41)\<close>

definition getPidsFromSet :: "string \<Rightarrow> jsval \<Rightarrow> jsval \<Rightarrow> jsval \<Rightarrow> world \<Rightarrow> jsval result \<times> world" where
  "getPidsFromSet key start stop reverse w =
     (if js_isNaN start \<or> js_isNaN stop then (Inr (JArr [] []), w)
      else if truthy reverse then db_getSortedSetRevRange key start stop w
      else db_getSortedSetRange key start stop w)"

subsection \<open>\<^verbatim>\<open>Posts.getPostsByPids\<close> (lines 43 to 80)\<close>

text \<open>Lines 60 to 64: the fields written on a present record before it is parsed.\<close>

definition decorate_fields :: "env \<Rightarrow> jsval \<Rightarrow> jsval result" where
  "decorate_fields env post =
     andThen (set_prop post ''upvotes''
                (js_or (JNum (parseInt10 (field_of post ''upvotes''))) (JNum (Fin 0)))) (\<lambda>p1.
     andThen (set_prop p1 ''downvotes''
                (js_or (JNum (parseInt10 (field_of p1 ''downvotes''))) (JNum (Fin 0)))) (\<lambda>p2.
     andThen (set_prop p2 ''votes'' (js_sub (field_of p2 ''upvotes'') (field_of p2 ''downvotes''))) (\<lambda>p3.
     andThen (set_prop p3 ''timestampISO'' (toISOString env (field_of p3 ''timestamp''))) (\<lambda>p4.
     set_prop p4 ''editedISO''
       (if \<not> num_strict_eq (parseInt10 (field_of p4 ''edited'')) (Fin 0)
        then toISOString env (field_of p4 ''edited'') else JStr [])))))"

text \<open>Lines 56 to 66: the function mapped over the records; an absent record gives \<open>undefined\<close>.\<close>

definition decoratePost :: "env \<Rightarrow> jsval \<Rightarrow> jsval result" where
  "decoratePost env post =
     (if \<not> truthy post then Inr JUndefined
      else andThen (decorate_fields env post) (parsePost env))"

text \<open>Lines 72 to 78: what is made of the answer of the hook.\<close>

definition getPosts_result :: "jsval \<Rightarrow> jsval result" where
  "getPosts_result data =
     (if \<not> truthy data \<or> \<not> isArray (field_of data ''posts'') then Inr (JArr [] [])
      else Inr (JArr (filter truthy (elems (field_of data ''posts''))) []))"

text \<open>Lines 49 to 68: from the ids to the sequence handed to the hook.\<close>

definition getPosts_payload :: "env \<Rightarrow> jsval list \<Rightarrow> jsval \<Rightarrow> world \<Rightarrow> jsval result \<times> world" where
  "getPosts_payload env pids uid w =
     (case db_getObjects (map (\<lambda>pid. ''post:'' @ to_string pid) pids) w of
        (objs, w1) \<Rightarrow>
          (andThen objs (\<lambda>posts.
           andThen (map_result (decoratePost env) posts) (\<lambda>posts1.
           andThen (blocks_filter env uid (JArr posts1 [])) (\<lambda>posts2.
           Inr (JObj [(''posts'', posts2), (''uid'', uid)])))), w1))"

definition getPostsByPids :: "env \<Rightarrow> jsval \<Rightarrow> jsval \<Rightarrow> world \<Rightarrow> jsval result \<times> world" where
  "getPostsByPids env pids uid w =
     (if \<not> isArray pids \<or> elems pids = [] then (Inr (JArr [] []), w)
      else case getPosts_payload env (elems pids) uid w of
        (payload, w1) \<Rightarrow>
          (andThen payload (\<lambda>p.
           andThen (fireHook env ''filter:post.getPosts'' p) getPosts_result), w1))"

subsection \<open>\<^verbatim>\<open>Posts.getPidIndex\<close> (lines 99 to 112)\<close>


subsection \<open>\<^verbatim>\<open>Posts.getPostIndices\<close> (lines 114 to 150)\<close>


subsection \<open>\<^verbatim>\<open>Posts.updatePostVoteCount\<close> (lines 152 to 209)\<close>

text \<open>Lines 157 to 167: the index of the author.\<close>

definition updateUserVotes :: "jsval \<Rightarrow> world \<Rightarrow> unit result \<times> world" where
  "updateUserVotes postData w =
     (if truthy (field_of postData ''uid'') then
        (if js_gt_zero (field_of postData ''votes'') then
           db_sortedSetAdd (''uid:'' @ to_string (field_of postData ''uid'') @ '':posts:votes'')
             (field_of postData ''votes'') (field_of postData ''pid'') w
         else db_sortedSetRemove (''uid:'' @ to_string (field_of postData ''uid'') @ '':posts:votes'')
                (field_of postData ''pid'') w)
      else (Inr (), w))"

text \<open>Lines 173 to 194: what follows the answer \<open>topicData\<close> of the topics module.\<close>

definition updateTopicVotes :: "jsval \<Rightarrow> jsval \<Rightarrow> world \<Rightarrow> unit result \<times> world" where
  "updateTopicVotes postData topicData w =
     (if num_strict_eq (parseInt10 (field_of topicData ''mainPid'')) (parseInt10 (field_of postData ''pid''))
      then
        (case topics_setTopicFields (field_of postData ''tid'')
                [(''upvotes'', field_of postData ''upvotes''), (''downvotes'', field_of postData ''downvotes'')] w of
           (r1, w1) \<Rightarrow>
             (case db_sortedSetAdd ''topics:votes'' (field_of postData ''votes'') (field_of postData ''tid'') w1 of
                (r2, w2) \<Rightarrow>
                  (case db_sortedSetAdd (''cid:'' @ to_string (field_of topicData ''cid'') @ '':tids:votes'')
                          (field_of postData ''votes'') (field_of postData ''tid'') w2 of
                     (r3, w3) \<Rightarrow> (first_error w3 [r1, r2, r3], w3))))
      else db_sortedSetAdd (''tid:'' @ to_string (field_of postData ''tid'') @ '':posts:votes'')
             (field_of postData ''votes'') (field_of postData ''pid'') w)"

text \<open>
  The four tasks of \<^verbatim>\<open>async.parallel\<close> are started in the order of the source, and each
  issues its first call at once; the second task continues when the topic fields have
  been answered, and ends there when that call has failed. The model applies the calls
  in the order in which they are issued; they go to different sets and records.
\<close>

definition updatePostVoteCount :: "jsval \<Rightarrow> world \<Rightarrow> unit result \<times> world" where
  "updatePostVoteCount postData w =
     (if \<not> truthy postData \<or> \<not> truthy (field_of postData ''pid'') \<or> \<not> truthy (field_of postData ''tid'')
      then (Inr (), w)
      else
        case updateUserVotes postData w of
          (r1, w1) \<Rightarrow>
        case topics_getTopicFields (field_of postData ''tid'') [''mainPid'', ''cid''] w1 of
          (topicData, w2) \<Rightarrow>
        case db_sortedSetAdd ''posts:votes'' (field_of postData ''votes'') (field_of postData ''pid'') w2 of
          (r3, w3) \<Rightarrow>
        case setPostFields (field_of postData ''pid'')
               [(''upvotes'', field_of postData ''upvotes''), (''downvotes'', field_of postData ''downvotes'')] w3 of
          (r4, w4) \<Rightarrow>
        case (case topicData of
                Inl e \<Rightarrow> (Inl e, w4)
              | Inr t \<Rightarrow> updateTopicVotes postData t w4) of
          (r2, w5) \<Rightarrow> (first_error w5 [r1, r2, r3, r4], w5))"

subsection \<open>\<^verbatim>\<open>Posts.modifyPostByPrivilege\<close> (lines 211 to 218)\<close>

text \<open>The test of line 212, with the short circuits of \<^verbatim>\<open>&&\<close> and \<^verbatim>\<open>||\<close>.\<close>

definition hidden_from_viewer :: "jsval \<Rightarrow> jsval \<Rightarrow> bool result" where
  "hidden_from_viewer post privileges =
     andThen (get_prop post ''deleted'') (\<lambda>deleted.
       if \<not> truthy deleted then Inr False
       else if truthy (field_of post ''selfPost'') then Inr False
       else andThen (get_prop privileges ''posts:view_deleted'') (\<lambda>p. Inr (\<not> truthy p)))"

text \<open>
  The function returns nothing and changes the post in place: the model returns the
  exception, if one is thrown, and the post as the call leaves it.
\<close>

definition modifyPostByPrivilege :: "jsval \<Rightarrow> jsval \<Rightarrow> error option \<times> jsval" where
  "modifyPostByPrivilege post privileges =
     (case hidden_from_viewer post privileges of
        Inl e \<Rightarrow> (Some e, post)
      | Inr False \<Rightarrow> (None, post)
      | Inr True \<Rightarrow>
          (case set_prop post ''content'' (JStr ''[[topic:post_is_deleted]]'') of
             Inl e \<Rightarrow> (Some e, post)
           | Inr post1 \<Rightarrow>
               if truthy (field_of post1 ''user'') then
                 (case set_prop (field_of post1 ''user'') ''signature'' (JStr []) of
                    Inl e \<Rightarrow> (Some e, post1)
                  | Inr user1 \<Rightarrow>
                      (case set_prop post1 ''user'' user1 of
                         Inl e \<Rightarrow> (Some e, post1)
                       | Inr post2 \<Rightarrow> (None, post2)))
               else (None, post1)))"

section \<open>The notions of the claims\<close>

text \<open>A value that takes properties: an object or an array.\<close>

fun is_object :: "jsval \<Rightarrow> bool" where
  "is_object (JObj ps) = True"
| "is_object (JArr xs ps) = True"
| "is_object v = False"

text \<open>
  The condition of redaction in the words of the spec: the post is deleted, and the viewer is
  neither its author nor allowed to view deleted posts.
\<close>

definition redacted_view :: "jsval \<Rightarrow> jsval \<Rightarrow> bool" where
  "redacted_view post privileges =
     (truthy (field_of post ''deleted'') \<and> \<not> truthy (field_of post ''selfPost'')
      \<and> \<not> truthy (field_of privileges ''posts:view_deleted''))"



fun positive :: "jsnum \<Rightarrow> bool" where
  "positive (Fin i) = (0 < i)"
| "positive PosInf = True"
| "positive x = False"




text \<open>
  The post is the main post of its topic: line 174, \<open>mainPid\<close> and \<open>pid\<close> read as the same
  integer, both rounded to doubles.
\<close>

definition main_post :: "jsval \<Rightarrow> world \<Rightarrow> bool" where
  "main_post postData w =
     num_strict_eq (parseInt10 (topic_field w (field_of postData ''tid'') ''mainPid''))
                   (parseInt10 (field_of postData ''pid''))"

text \<open>The backend answers every call.\<close>

definition healthy :: "world \<Rightarrow> bool" where
  "healthy w = (\<forall>c. faults w c = None)"

text \<open>The world after a write that the backend carries out.\<close>

definition added :: "string \<Rightarrow> jsval \<Rightarrow> jsval \<Rightarrow> world \<Rightarrow> world" where
  "added key score v w =
     logged (SortedSetAdd key score v) (w\<lparr>zsets := (zsets w)(key := zadd v score (zsets w key))\<rparr>)"

definition removed :: "string \<Rightarrow> jsval \<Rightarrow> world \<Rightarrow> world" where
  "removed key v w =
     logged (SortedSetRemove key v) (w\<lparr>zsets := (zsets w)(key := zrem v (zsets w key))\<rparr>)"

definition topic_stored :: "jsval \<Rightarrow> (string \<times> jsval) list \<Rightarrow> world \<Rightarrow> world" where
  "topic_stored tid data w =
     logged (SetTopicFields tid data) (w\<lparr>topics := (topics w)(tid := store_fields data (topics w tid))\<rparr>)"

definition post_stored :: "jsval \<Rightarrow> (string \<times> jsval) list \<Rightarrow> world \<Rightarrow> world" where
  "post_stored pid data w =
     logged (SetPostFields pid data)
       (w\<lparr>objects := (objects w)(post_key pid \<mapsto>
             store_fields data (case objects w (post_key pid) of None \<Rightarrow> [] | Some fs \<Rightarrow> fs))\<rparr>)"

text \<open>The world after lines 157 to 167, when the backend answers.\<close>

definition user_index_updated :: "jsval \<Rightarrow> world \<Rightarrow> world" where
  "user_index_updated postData w =
     (if truthy (field_of postData ''uid'') then
        (if js_gt_zero (field_of postData ''votes'') then
           added (''uid:'' @ to_string (field_of postData ''uid'') @ '':posts:votes'')
             (field_of postData ''votes'') (field_of postData ''pid'') w
         else removed (''uid:'' @ to_string (field_of postData ''uid'') @ '':posts:votes'')
                (field_of postData ''pid'') w)
      else w)"

text \<open>The calls issued between a world and a later one.\<close>

definition new_calls :: "world \<Rightarrow> world \<Rightarrow> call list" where
  "new_calls w w' = drop (length (calls w)) (calls w')"

section \<open>Sample data\<close>

text \<open>A world with nothing stored, where every viewer has the default settings.\<close>

definition empty_world :: world where
  "empty_world =
     \<lparr>zsets = (\<lambda>k. []), objects = (\<lambda>k. None), topics = (\<lambda>t. []), settings = (\<lambda>u. JObj []),
       faults = (\<lambda>c. None), malformed = (\<lambda>k v. None), race = (\<lambda>es. 0), calls = []\<rparr>"

text \<open>A deleted post with its author.\<close>

definition deleted_post :: jsval where
  "deleted_post =
     JObj [(''pid'', JNum (Fin 3)), (''deleted'', JBool True), (''content'', JStr ''hello''),
           (''user'', JObj [(''username'', JStr ''ann''), (''signature'', JStr ''bye'')])]"

text \<open>Collaborators that hand on what they are given, and a hook that answers with no payload.\<close>

definition sample_env :: env where
  "sample_env = \<lparr>toISOString = (\<lambda>v. JStr (to_string v)), parsePost = (\<lambda>post. Inr post),
                  blocks_filter = (\<lambda>uid posts. Inr posts), fireHook = (\<lambda>name payload. Inr payload)\<rparr>"

definition silent_hook_env :: env where
  "silent_hook_env = sample_env\<lparr>fireHook := (\<lambda>name payload. Inr JUndefined)\<rparr>"

text \<open>A world that stores one post, with a negative number of upvotes.\<close>

definition stored_world :: world where
  "stored_world = empty_world\<lparr>objects := (\<lambda>k. None)(''post:7'' \<mapsto>
      [(''pid'', JNum (Fin 7)), (''upvotes'', JStr ''-5''), (''downvotes'', JStr ''2''), (''edited'', JNum (Fin 0))])\<rparr>"

text \<open>
  The topic of the scenarios of the spec: topic 1 of category 7, opened by post 1, with
  the replies 2 and 3, written in that order. Post 2 has had 4 votes so far; post 3 once
  had 2 votes and is in the index of its author.
\<close>

definition post_P1 :: jsval where
  "post_P1 = JObj [(''pid'', JNum (Fin 1)), (''tid'', JNum (Fin 1)), (''uid'', JNum (Fin 21)),
                   (''upvotes'', JNum (Fin 4)), (''downvotes'', JNum (Fin 1)), (''votes'', JNum (Fin 3))]"

definition post_P2 :: jsval where
  "post_P2 = JObj [(''pid'', JNum (Fin 2)), (''tid'', JNum (Fin 1)), (''uid'', JNum (Fin 22)),
                   (''upvotes'', JNum (Fin 5)), (''downvotes'', JNum (Fin 0)), (''votes'', JNum (Fin 5))]"

definition post_P3 :: jsval where
  "post_P3 = JObj [(''pid'', JNum (Fin 3)), (''tid'', JNum (Fin 1)), (''uid'', JNum (Fin 21)),
                   (''upvotes'', JNum (Fin 2)), (''downvotes'', JNum (Fin 3)), (''votes'', JNum (Fin (- 1)))]"

definition topic_world :: world where
  "topic_world = empty_world
     \<lparr>zsets := (\<lambda>k. [])
         (''tid:1:posts'' := [(JNum (Fin 1), JNum (Fin 100)), (JNum (Fin 2), JNum (Fin 200)),
                               (JNum (Fin 3), JNum (Fin 300))],
          ''tid:1:posts:votes'' := [(JNum (Fin 3), JNum (Fin 2)), (JNum (Fin 2), JNum (Fin 4))],
          ''uid:21:posts:votes'' := [(JNum (Fin 3), JNum (Fin 2))]),
      topics := (\<lambda>t. [])(JNum (Fin 1) := [(''mainPid'', JNum (Fin 1)), (''cid'', JNum (Fin 7))]),
      settings := (\<lambda>u. JObj [(''topicPostSort'', JStr ''most_votes'')])\<rparr>"


section \<open>Properties\<close>

declare nat_to_string.simps [simp del]

declare bit_len.simps [simp del]

subsection \<open>The world after one operation\<close>

lemma zsets_logged [simp]: "zsets (logged c w) = zsets w"
  and objects_logged [simp]: "objects (logged c w) = objects w"
  and topics_logged [simp]: "topics (logged c w) = topics w"
  and settings_logged [simp]: "settings (logged c w) = settings w"
  and faults_logged [simp]: "faults (logged c w) = faults w"
  and malformed_logged [simp]: "malformed (logged c w) = malformed w"
  and race_logged [simp]: "race (logged c w) = race w"
  and calls_logged [simp]: "calls (logged c w) = calls w @ [c]"
  by (simp_all add: logged_def)


lemma healthy_kept [simp]:
  "healthy (logged c w) = healthy w"
  "healthy (w\<lparr>zsets := z\<rparr>) = healthy w"
  "healthy (w\<lparr>topics := t\<rparr>) = healthy w"
  "healthy (w\<lparr>objects := ob\<rparr>) = healthy w"
  by (simp_all add: healthy_def)

lemma backend_write_healthy: "healthy w \<Longrightarrow> backend_write c change w = (Inr (), logged c (change w))"
  by (simp add: backend_write_def healthy_def)

lemma backend_read_healthy: "healthy w \<Longrightarrow> backend_read c answer w = (Inr (answer w), logged c w)"
  by (simp add: backend_read_def healthy_def)

lemma snd_backend_read [simp]: "snd (backend_read c answer w) = logged c w"
  by (simp add: backend_read_def)

lemma healthy_empty_world: "healthy empty_world"
  by (simp add: healthy_def empty_world_def)

subsection \<open>Rounding to a double\<close>

lemma round_double_small: "\<bar>i\<bar> \<le> 9007199254740992 \<Longrightarrow> round_double i = Fin i"
  by (simp add: round_double_def)

lemma bit_len_bound: "0 < n \<Longrightarrow> 2 ^ bit_len n \<le> 2 * n"
proof (induction n rule: bit_len.induct)
  case (1 n)
  show ?case
  proof (cases "n div 2 = 0")
    case True
    with 1(2) have "n = 1"
      by auto
    then show ?thesis
      by (simp add: bit_len.simps)
  next
    case False
    then have "2 ^ bit_len (n div 2) \<le> 2 * (n div 2)"
      using 1 by simp
    also have "\<dots> \<le> n"
      by simp
    finally show ?thesis
      using 1(2) by (subst bit_len.simps) simp
  qed
qed

text \<open>Beyond \<open>2^53\<close> the 53 leading bits are not all zero.\<close>

lemma mantissa_pos:
  assumes "9007199254740992 < a"
  shows "0 < a div 2 ^ (bit_len a - 53)"
proof -
  have a: "2 ^ bit_len a \<le> 2 * a"
    using assms by (intro bit_len_bound) simp
  have "(2::nat) ^ (bit_len a - 53) \<le> a"
  proof (cases "53 \<le> bit_len a")
    case True
    have "(2::nat) ^ (bit_len a - 53 + 53) = 2 ^ (bit_len a - 53) * 2 ^ 53"
      by (rule power_add)
    with True have "(2::nat) ^ bit_len a = 2 ^ (bit_len a - 53) * 2 ^ 53"
      by simp
    with a have "(2::nat) ^ (bit_len a - 53) * 2 ^ 53 \<le> 2 * a"
      by simp
    then show ?thesis
      by simp
  next
    case False
    then show ?thesis
      using assms by simp
  qed
  then show ?thesis
    by (simp add: div_greater_zero_iff)
qed

text \<open>Rounding keeps the sign, and gives a number.\<close>

lemma round_double_sign:
  "(case round_double i of
      Fin j \<Rightarrow> (0 < j) = (0 < i) \<and> (j < 0) = (i < 0)
    | PosInf \<Rightarrow> 0 < i
    | NegInf \<Rightarrow> i < 0
    | NaN \<Rightarrow> False)"
proof (cases "\<bar>i\<bar> \<le> 9007199254740992")
  case True
  then show ?thesis
    by (simp add: round_double_def)
next
  case False
  define a where "a = nat \<bar>i\<bar>"
  define e where "e = bit_len a - 53"
  define q1 where "q1 = (if 2 ^ e < 2 * (a mod 2 ^ e) \<or> (2 * (a mod 2 ^ e) = 2 ^ e \<and> odd (a div 2 ^ e))
                         then a div 2 ^ e + 1 else a div 2 ^ e)"
  define v where "v = int (q1 * 2 ^ e)"
  have "9007199254740992 < a"
    using False by (simp add: a_def)
  then have "0 < a div 2 ^ e"
    unfolding e_def by (rule mantissa_pos)
  then have "0 < q1"
    by (simp add: q1_def)
  then have v: "0 < v"
    by (simp add: v_def)
  have rd: "round_double i =
      (if 2 ^ 1024 \<le> v then (if i < 0 then NegInf else PosInf) else Fin (if i < 0 then - v else v))"
    unfolding round_double_def Let_def v_def q1_def e_def a_def using False by (simp only: if_False)
  have "i \<noteq> 0"
    using False by auto
  then show ?thesis
    unfolding rd using v by (simp split: if_splits)
qed


lemma num_kind_positive: "(num_kind n = KPos \<or> num_kind n = KPosInf) = positive n"
proof (cases n)
  case (Fin i)
  then show ?thesis
    using round_double_sign [of i] by (cases "round_double i") (auto split: if_splits)
qed simp_all

lemma num_kind_small:
  "\<bar>i\<bar> \<le> 9007199254740992 \<Longrightarrow> num_kind (Fin i) = (if i < 0 then KNeg else if i = 0 then KZero else KPos)"
  by (simp add: round_double_small)

subsection \<open>\<^verbatim>\<open>parseInt\<close> reads back the decimal form of an integer\<close>

lemma digit_cases: "d < 10 \<Longrightarrow> d \<in> {0, 1, 2, 3, 4, 5, 6, 7, 8, 9::nat}"
  by auto

lemma digit_val_digit_char: "d < 10 \<Longrightarrow> digit_val (digit_char d) = d"
  by (drule digit_cases) (auto simp: digit_val_def digit_char_def)

lemma is_digit_digit_char: "d < 10 \<Longrightarrow> is_digit (digit_char d)"
  by (drule digit_cases) (auto simp: is_digit_def digit_char_def)

lemma digits_val_snoc: "digits_val (z @ [c]) = 10 * digits_val z + digit_val c"
  by (simp add: digits_val_def)

lemma nat_to_string_digits: "list_all is_digit (nat_to_string n) \<and> nat_to_string n \<noteq> []"
proof (induction n rule: nat_to_string.induct)
  case (1 n)
  show ?case
  proof (cases "n < 10")
    case True
    then show ?thesis
      by (subst (1 2) nat_to_string.simps) (simp add: is_digit_digit_char)
  next
    case False
    with 1 show ?thesis
      by (subst (1 2) nat_to_string.simps) (simp add: is_digit_digit_char)
  qed
qed

lemma digits_val_nat_to_string: "digits_val (nat_to_string n) = n"
proof (induction n rule: nat_to_string.induct)
  case (1 n)
  show ?case
  proof (cases "n < 10")
    case True
    then show ?thesis
      by (subst nat_to_string.simps) (simp add: digits_val_def digit_val_digit_char)
  next
    case False
    with 1 show ?thesis
      by (subst nat_to_string.simps) (simp add: digits_val_snoc digit_val_digit_char)
  qed
qed

lemma digit_not_ws: "is_digit c \<Longrightarrow> \<not> is_ws c \<and> c \<noteq> CHR ''-'' \<and> c \<noteq> CHR ''+'' \<and> c \<noteq> CHR ''.''"
  by (auto simp: is_digit_def is_ws_def)

lemma takeWhile_digits: "list_all is_digit z \<Longrightarrow> takeWhile is_digit z = z \<and> dropWhile is_digit z = []"
  by (simp add: list_all_iff)

lemma parseInt_str_digits:
  assumes "list_all is_digit z" "z \<noteq> []"
  shows "parseInt_str z = round_double (int (digits_val z))"
proof -
  from assms obtain c cs where z: "z = c # cs" and c: "is_digit c"
    by (cases z) auto
  have t: "takeWhile is_digit cs = cs"
    using assms(1) by (simp add: list_all_iff z)
  show ?thesis
    using digit_not_ws [OF c] c by (simp add: parseInt_str_def z t)
qed

lemma parseInt_str_minus_digits:
  assumes "list_all is_digit z" "z \<noteq> []"
  shows "parseInt_str (CHR ''-'' # z) = round_double (- int (digits_val z))"
  using assms by (simp add: parseInt_str_def is_ws_def takeWhile_digits)

lemma to_string_small:
  assumes "\<bar>i\<bar> \<le> 9007199254740992"
  shows "to_string (JNum (Fin i)) =
           (if i < 0 then CHR ''-'' # nat_to_string (nat (- i)) else nat_to_string (nat i))"
proof -
  from assms have "nat (- i) \<le> 9007199254740992" "nat i \<le> 9007199254740992"
    by simp_all
  then show ?thesis
    by (simp add: round_double_small [OF assms] int_to_string_def print_nat_def)
qed

lemma parseInt10_small: "\<bar>i\<bar> \<le> 9007199254740992 \<Longrightarrow> parseInt10 (JNum (Fin i)) = Fin i"
  using nat_to_string_digits [of "nat i"] nat_to_string_digits [of "nat (- i)"]
  by (simp add: parseInt10_def to_string_small parseInt_str_digits parseInt_str_minus_digits
      digits_val_nat_to_string round_double_small del: to_string.simps)

lemma parseInt10_nat: "n \<le> 9007199254740992 \<Longrightarrow> parseInt10 (JNum (Fin (int n))) = Fin (int n)"
  by (simp add: parseInt10_small)

subsection \<open>\<^verbatim>\<open>Posts.getPidsFromSet\<close>\<close>

text \<open>
  C8, as the spec states it, fails: the guard of line 37 is \<^verbatim>\<open>isNaN\<close>, which converts its
  argument to a number first. The text \<^verbatim>\<open>"1.5"\<close> is no valid integer index, but it is a
  number, so the backend range operation is called with it.
\<close>

theorem getPidsFromSet_fraction_counterexample:
  "calls (snd (getPidsFromSet ''posts:pid'' (JStr ''1.5'') (JNum (Fin 5)) (JBool False) empty_world))
     = [GetSortedSetRange ''posts:pid'' (JStr ''1.5'') (JNum (Fin 5))]"
  by (simp add: getPidsFromSet_def js_isNaN_def str_kind_def trim_def is_ws_def decimal_kind_def
      is_digit_def exponent_ok_def exponent_val_def magnitude_kind_def digits_val_def digit_val_def
      nat_to_string.simps round_double_def db_getSortedSetRange_def empty_world_def)

text \<open>
  C8, amended: for every set name and reverse flag, \<^verbatim>\<open>getPidsFromSet\<close> returns the empty
  sequence and leaves the world as it is, with no call logged, whenever \<^verbatim>\<open>isNaN\<close> holds
  of \<open>start\<close> or of \<open>stop\<close>; for every other pair of bounds it calls the range operation
  of the backend, forward or reverse, with the bounds as given.
\<close>

theorem getPidsFromSet_isNaN_guard:
  "(js_isNaN start \<or> js_isNaN stop \<longrightarrow>
      getPidsFromSet key start stop reverse w = (Inr (JArr [] []), w))
   \<and> (\<not> js_isNaN start \<and> \<not> js_isNaN stop \<longrightarrow>
        calls (snd (getPidsFromSet key start stop reverse w)) =
          calls w @ [if truthy reverse then GetSortedSetRevRange key start stop
                     else GetSortedSetRange key start stop])"
  by (simp add: getPidsFromSet_def db_getSortedSetRange_def db_getSortedSetRevRange_def)

theorem getPidsFromSet_isNaN_guard_witness:
  "js_isNaN (JNum NaN) \<and> js_isNaN (JStr ''abc'') \<and>
   getPidsFromSet ''posts:pid'' (JNum NaN) (JNum (Fin 5)) (JBool False) empty_world
     = (Inr (JArr [] []), empty_world) \<and>
   getPidsFromSet ''posts:pid'' (JNum (Fin 0)) (JStr ''abc'') (JBool True) empty_world
     = (Inr (JArr [] []), empty_world) \<and>
   \<not> js_isNaN (JNum (Fin 0)) \<and> \<not> js_isNaN (JNum (Fin 5)) \<and>
   calls (snd (getPidsFromSet ''posts:pid'' (JNum (Fin 0)) (JNum (Fin 5)) (JBool True) empty_world))
     = [GetSortedSetRevRange ''posts:pid'' (JNum (Fin 0)) (JNum (Fin 5))]"
proof -
  have c: "\<not> js_isNaN (JNum (Fin 0))" "\<not> js_isNaN (JNum (Fin 5))" "calls empty_world = []"
    by (simp_all add: js_isNaN_def empty_world_def round_double_def)
  have a: "js_isNaN (JNum NaN)"
    by (simp add: js_isNaN_def)
  have b: "js_isNaN (JStr ''abc'')"
    by (simp add: js_isNaN_def str_kind_def trim_def is_ws_def decimal_kind_def is_digit_def)
  show ?thesis
    using a b c
      getPidsFromSet_isNaN_guard [of "JNum NaN" "JNum (Fin 5)" "''posts:pid''" "JBool False" empty_world]
      getPidsFromSet_isNaN_guard [of "JNum (Fin 0)" "JStr ''abc''" "''posts:pid''" "JBool True" empty_world]
      getPidsFromSet_isNaN_guard [of "JNum (Fin 0)" "JNum (Fin 5)" "''posts:pid''" "JBool True" empty_world]
    by simp
qed

subsection \<open>\<^verbatim>\<open>Posts.updatePostVoteCount\<close>\<close>

text \<open>
  C6: when the post object is absent, or its \<open>pid\<close> or its \<open>tid\<close> is missing or zero,
  \<^verbatim>\<open>updatePostVoteCount\<close> calls back without an error and leaves the world as it is: no
  index, no topic field and no post field is written, and no call is logged.
\<close>

theorem updatePostVoteCount_noop:
  assumes "postData = JUndefined \<or> postData = JNull
     \<or> field_of postData ''pid'' = JUndefined \<or> field_of postData ''pid'' = JNum (Fin 0)
     \<or> field_of postData ''tid'' = JUndefined \<or> field_of postData ''tid'' = JNum (Fin 0)"
  shows "updatePostVoteCount postData w = (Inr (), w)"
proof -
  from assms have
    "\<not> truthy postData \<or> \<not> truthy (field_of postData ''pid'') \<or> \<not> truthy (field_of postData ''tid'')"
    by auto
  then show ?thesis
    unfolding updatePostVoteCount_def by (simp only: if_True)
qed

theorem updatePostVoteCount_noop_witness:
  "field_of (JObj [(''pid'', JNum (Fin 4)), (''uid'', JNum (Fin 2)), (''votes'', JNum (Fin 3))]) ''tid''
     = JUndefined
   \<and> updatePostVoteCount
         (JObj [(''pid'', JNum (Fin 4)), (''uid'', JNum (Fin 2)), (''votes'', JNum (Fin 3))]) empty_world
       = (Inr (), empty_world)"
proof -
  have h: "field_of (JObj [(''pid'', JNum (Fin 4)), (''uid'', JNum (Fin 2)), (''votes'', JNum (Fin 3))]) ''tid''
             = JUndefined"
    by simp
  show ?thesis
    using h updatePostVoteCount_noop
      [of "JObj [(''pid'', JNum (Fin 4)), (''uid'', JNum (Fin 2)), (''votes'', JNum (Fin 3))]" empty_world]
    by simp
qed

subsection \<open>\<^verbatim>\<open>Posts.modifyPostByPrivilege\<close>\<close>

lemma field_of_set_prop:
  assumes "set_prop v k x = Inr v'" and "k \<noteq> ''length''"
  shows "field_of v' k' = (if k' = k then x else field_of v k')"
  using assms by (cases v) (auto simp: update_conv')

lemma set_prop_is_object: "is_object v \<Longrightarrow> \<exists>v'. set_prop v k x = Inr v'"
  by (cases v) auto

lemma set_prop_not_object: "\<not> is_object v \<Longrightarrow> set_prop v k x = Inl TypeError"
  by (cases v) auto

lemma truthy_field_is_object: "truthy (field_of v k) \<Longrightarrow> k \<noteq> ''length'' \<Longrightarrow> is_object v"
  by (cases v) (auto split: if_splits)

lemma hidden_from_viewer_eq:
  "\<not> nullish post \<Longrightarrow> \<not> nullish privileges \<Longrightarrow>
   hidden_from_viewer post privileges = Inr (redacted_view post privileges)"
  by (auto simp: hidden_from_viewer_def redacted_view_def get_prop_def andThen_def)

lemma modify_unchanged:
  assumes "\<not> nullish post" "\<not> nullish privileges" "\<not> redacted_view post privileges"
  shows "modifyPostByPrivilege post privileges = (None, post)"
  using assms by (simp add: modifyPostByPrivilege_def hidden_from_viewer_eq)

lemma modify_redacted:
  assumes np: "\<not> nullish post" "\<not> nullish privileges" and r: "redacted_view post privileges"
  obtains post1 where "set_prop post ''content'' (JStr ''[[topic:post_is_deleted]]'') = Inr post1"
    and "modifyPostByPrivilege post privileges =
      (if truthy (field_of post ''user'') then
         (case set_prop (field_of post ''user'') ''signature'' (JStr []) of
            Inl e \<Rightarrow> (Some e, post1)
          | Inr user1 \<Rightarrow> (case set_prop post1 ''user'' user1 of Inl e \<Rightarrow> (Some e, post1) | Inr post2 \<Rightarrow> (None, post2)))
       else (None, post1))"
proof -
  from r have "is_object post"
    by (auto simp: redacted_view_def intro: truthy_field_is_object)
  then obtain post1 where p1: "set_prop post ''content'' (JStr ''[[topic:post_is_deleted]]'') = Inr post1"
    using set_prop_is_object by blast
  have u: "field_of post1 ''user'' = field_of post ''user''"
    using field_of_set_prop [OF p1] by simp
  show ?thesis
    by (rule that [OF p1]) (simp add: modifyPostByPrivilege_def hidden_from_viewer_eq np r p1 u)
qed

text \<open>
  C10: for a post and a privilege set, \<^verbatim>\<open>modifyPostByPrivilege\<close> leaves the post as it is
  unless the post is deleted and the viewer is neither the author nor allowed to view
  deleted posts. In that case the content becomes the placeholder; a user object on
  the post gets the empty signature and keeps its other fields; a post without a user
  keeps its user field. In every case the fields of the post other than \<open>content\<close>
  and \<open>user\<close> are as before.
\<close>

theorem modifyPostByPrivilege_effect:
  assumes np: "\<not> nullish post" "\<not> nullish privileges"
  shows "(\<not> redacted_view post privileges \<longrightarrow> modifyPostByPrivilege post privileges = (None, post))
    \<and> (redacted_view post privileges \<longrightarrow>
         field_of (snd (modifyPostByPrivilege post privileges)) ''content'' = JStr ''[[topic:post_is_deleted]]''
         \<and> (is_object (field_of post ''user'') \<longrightarrow>
              fst (modifyPostByPrivilege post privileges) = None
              \<and> field_of (field_of (snd (modifyPostByPrivilege post privileges)) ''user'') ''signature'' = JStr []
              \<and> (\<forall>k. k \<noteq> ''signature'' \<longrightarrow>
                    field_of (field_of (snd (modifyPostByPrivilege post privileges)) ''user'') k
                      = field_of (field_of post ''user'') k))
         \<and> (\<not> truthy (field_of post ''user'') \<longrightarrow>
              fst (modifyPostByPrivilege post privileges) = None
              \<and> field_of (snd (modifyPostByPrivilege post privileges)) ''user'' = field_of post ''user''))
    \<and> (\<forall>k. k \<noteq> ''content'' \<and> k \<noteq> ''user'' \<longrightarrow>
          field_of (snd (modifyPostByPrivilege post privileges)) k = field_of post k)"
proof (cases "redacted_view post privileges")
  case False
  then show ?thesis
    using modify_unchanged [OF np] by simp
next
  case True
  from modify_redacted [OF np True] obtain post1 where
    p1: "set_prop post ''content'' (JStr ''[[topic:post_is_deleted]]'') = Inr post1"
    and m: "modifyPostByPrivilege post privileges =
      (if truthy (field_of post ''user'') then
         (case set_prop (field_of post ''user'') ''signature'' (JStr []) of
            Inl e \<Rightarrow> (Some e, post1)
          | Inr user1 \<Rightarrow> (case set_prop post1 ''user'' user1 of Inl e \<Rightarrow> (Some e, post1) | Inr post2 \<Rightarrow> (None, post2)))
       else (None, post1))"
    by blast
  have f1: "\<And>k. field_of post1 k = (if k = ''content'' then JStr ''[[topic:post_is_deleted]]'' else field_of post k)"
    using field_of_set_prop [OF p1] by simp
  have o1: "is_object post1"
    using p1 by (cases post) auto
  show ?thesis
  proof (cases "truthy (field_of post ''user'')")
    case False
    then have "modifyPostByPrivilege post privileges = (None, post1)"
      using m by simp
    moreover have "\<not> is_object (field_of post ''user'')"
      using False by (cases "field_of post ''user''") auto
    ultimately show ?thesis
      using True False f1 by simp
  next
    case tu: True
    show ?thesis
    proof (cases "is_object (field_of post ''user'')")
      case False
      then have "modifyPostByPrivilege post privileges = (Some TypeError, post1)"
        using m tu by (simp add: set_prop_not_object)
      then show ?thesis
        using True False tu f1 by simp
    next
      case ou: True
      then obtain user1 where u1: "set_prop (field_of post ''user'') ''signature'' (JStr []) = Inr user1"
        using set_prop_is_object by blast
      from o1 obtain post2 where p2: "set_prop post1 ''user'' user1 = Inr post2"
        using set_prop_is_object by blast
      have mm: "modifyPostByPrivilege post privileges = (None, post2)"
        using m tu u1 p2 by simp
      have f2: "\<And>k. field_of post2 k = (if k = ''user'' then user1 else field_of post1 k)"
        using field_of_set_prop [OF p2] by simp
      have fu: "\<And>k. field_of user1 k = (if k = ''signature'' then JStr [] else field_of (field_of post ''user'') k)"
        using field_of_set_prop [OF u1] by simp
      show ?thesis
        using True tu ou by (simp add: mm f2 f1 fu)
    qed
  qed
qed

theorem modifyPostByPrivilege_effect_witness:
  "\<not> nullish deleted_post \<and> \<not> nullish (JObj []) \<and> redacted_view deleted_post (JObj [])
   \<and> is_object (field_of deleted_post ''user'')
   \<and> modifyPostByPrivilege deleted_post (JObj []) =
       (None, JObj [(''pid'', JNum (Fin 3)), (''deleted'', JBool True),
                    (''content'', JStr ''[[topic:post_is_deleted]]''),
                    (''user'', JObj [(''username'', JStr ''ann''), (''signature'', JStr [])])])
   \<and> \<not> redacted_view deleted_post (JObj [(''posts:view_deleted'', JBool True)])
   \<and> modifyPostByPrivilege deleted_post (JObj [(''posts:view_deleted'', JBool True)]) = (None, deleted_post)
   \<and> redacted_view (JObj [(''deleted'', JBool True), (''content'', JStr ''hello'')]) (JObj [])
   \<and> \<not> truthy (field_of (JObj [(''deleted'', JBool True), (''content'', JStr ''hello'')]) ''user'')
   \<and> modifyPostByPrivilege (JObj [(''deleted'', JBool True), (''content'', JStr ''hello'')]) (JObj []) =
       (None, JObj [(''deleted'', JBool True), (''content'', JStr ''[[topic:post_is_deleted]]'')])"
proof -
  have u: "\<not> nullish (JObj [(''deleted'', JBool True), (''content'', JStr ''hello'')])"
    "redacted_view (JObj [(''deleted'', JBool True), (''content'', JStr ''hello'')]) (JObj [])"
    "\<not> truthy (field_of (JObj [(''deleted'', JBool True), (''content'', JStr ''hello'')]) ''user'')"
    by (simp_all add: redacted_view_def)
  have x: "modifyPostByPrivilege (JObj [(''deleted'', JBool True), (''content'', JStr ''hello'')]) (JObj []) =
       (None, JObj [(''deleted'', JBool True), (''content'', JStr ''[[topic:post_is_deleted]]'')])"
    by (simp add: modifyPostByPrivilege_def hidden_from_viewer_def get_prop_def andThen_def)
  have a: "\<not> nullish deleted_post" "\<not> nullish (JObj [])" "\<not> nullish (JObj [(''posts:view_deleted'', JBool True)])"
    by (simp_all add: deleted_post_def)
  have r: "redacted_view deleted_post (JObj [])"
    by (simp add: redacted_view_def deleted_post_def)
  have n: "\<not> redacted_view deleted_post (JObj [(''posts:view_deleted'', JBool True)])"
    by (simp add: redacted_view_def deleted_post_def)
  have o: "is_object (field_of deleted_post ''user'')"
    by (simp add: deleted_post_def)
  have v: "modifyPostByPrivilege deleted_post (JObj []) =
       (None, JObj [(''pid'', JNum (Fin 3)), (''deleted'', JBool True),
                    (''content'', JStr ''[[topic:post_is_deleted]]''),
                    (''user'', JObj [(''username'', JStr ''ann''), (''signature'', JStr [])])])"
    by (simp add: modifyPostByPrivilege_def hidden_from_viewer_def get_prop_def andThen_def deleted_post_def)
  show ?thesis
    using a r n o v u x modifyPostByPrivilege_effect [OF a(1) a(2)]
      modifyPostByPrivilege_effect [OF a(1) a(3)] modifyPostByPrivilege_effect [OF u(1) a(2)]
    by simp
qed

subsection \<open>\<^verbatim>\<open>Posts.getPostsByPids\<close>\<close>









lemma getPosts_result_shape:
  "\<exists>xs. getPosts_result data = Inr (JArr xs []) \<and> list_all truthy xs"
  by (simp add: getPosts_result_def list_all_iff)

text \<open>
  C9: when the hook \<^verbatim>\<open>filter:post.getPosts\<close> answers with no payload, or with a payload
  whose \<open>posts\<close> is not an array, \<^verbatim>\<open>getPostsByPids\<close> returns the empty sequence and no
  error; and every sequence it returns is an array without falsy entries, so without
  \<open>null\<close> and \<open>undefined\<close>.
\<close>

theorem getPostsByPids_malformed_hook:
  "(isArray pids \<and> elems pids \<noteq> []
      \<and> getPosts_payload env (elems pids) uid w = (Inr payload, w1)
      \<and> fireHook env ''filter:post.getPosts'' payload = Inr data
      \<and> (nullish data \<or> \<not> isArray (field_of data ''posts''))
    \<longrightarrow> getPostsByPids env pids uid w = (Inr (JArr [] []), w1))
   \<and> (fst (getPostsByPids env pids uid w) = Inr r
    \<longrightarrow> isArray r \<and> list_all truthy (elems r)
        \<and> JNull \<notin> set (elems r) \<and> JUndefined \<notin> set (elems r))"
proof (intro conjI impI)
  assume a: "isArray pids \<and> elems pids \<noteq> []
      \<and> getPosts_payload env (elems pids) uid w = (Inr payload, w1)
      \<and> fireHook env ''filter:post.getPosts'' payload = Inr data
      \<and> (nullish data \<or> \<not> isArray (field_of data ''posts''))"
  then have "\<not> truthy data \<or> \<not> isArray (field_of data ''posts'')"
    by (cases data) auto
  then have "getPosts_result data = Inr (JArr [] [])"
    by (auto simp: getPosts_result_def)
  with a show "getPostsByPids env pids uid w = (Inr (JArr [] []), w1)"
    by (simp add: getPostsByPids_def andThen_def)
next
  assume r: "fst (getPostsByPids env pids uid w) = Inr r"
  have "\<exists>xs. r = JArr xs [] \<and> list_all truthy xs"
  proof (cases "\<not> isArray pids \<or> elems pids = []")
    case True
    with r show ?thesis
      by (auto simp: getPostsByPids_def)
  next
    case False
    obtain payload w1 where g: "getPosts_payload env (elems pids) uid w = (payload, w1)"
      by (cases "getPosts_payload env (elems pids) uid w")
    from r False g obtain p data where "getPosts_result data = Inr r"
      by (auto simp: getPostsByPids_def andThen_def split: sum.splits)
    with getPosts_result_shape [of data] show ?thesis
      by auto
  qed
  then obtain xs where x: "r = JArr xs []" "list_all truthy xs"
    by blast
  then have "JNull \<notin> set xs" "JUndefined \<notin> set xs"
    by (auto simp: list_all_iff)
  with x show "isArray r" "list_all truthy (elems r)" "JNull \<notin> set (elems r)" "JUndefined \<notin> set (elems r)"
    by simp_all
qed

theorem getPostsByPids_malformed_hook_witness:
  "isArray (JArr [JNum (Fin 7)] []) \<and> elems (JArr [JNum (Fin 7)] []) \<noteq> []
   \<and> fireHook silent_hook_env ''filter:post.getPosts''
        (JObj [(''posts'', JArr [JObj [(''pid'', JNum (Fin 7)), (''upvotes'', JNum (Fin (- 5))),
                        (''downvotes'', JNum (Fin 2)), (''edited'', JNum (Fin 0)),
                        (''votes'', JNum (Fin (- 7))), (''timestampISO'', JStr ''undefined''),
                        (''editedISO'', JStr [])]] []), (''uid'', JNum (Fin 1))]) = Inr JUndefined
   \<and> nullish JUndefined
   \<and> fst (getPostsByPids silent_hook_env (JArr [JNum (Fin 7)] []) (JNum (Fin 1)) stored_world) = Inr (JArr [] [])
   \<and> fst (getPostsByPids sample_env (JArr [JNum (Fin 7), JNum (Fin 8)] []) (JNum (Fin 1)) stored_world)
       = Inr (JArr [JObj [(''pid'', JNum (Fin 7)), (''upvotes'', JNum (Fin (- 5))),
                        (''downvotes'', JNum (Fin 2)), (''edited'', JNum (Fin 0)),
                        (''votes'', JNum (Fin (- 7))), (''timestampISO'', JStr ''undefined''),
                        (''editedISO'', JStr [])]] [])
   \<and> list_all truthy [JObj [(''pid'', JNum (Fin 7)), (''upvotes'', JNum (Fin (- 5))),
                        (''downvotes'', JNum (Fin 2)), (''edited'', JNum (Fin 0)),
                        (''votes'', JNum (Fin (- 7))), (''timestampISO'', JStr ''undefined''),
                        (''editedISO'', JStr [])]]"
proof -
  let ?payload = "JObj [(''posts'', JArr [JObj [(''pid'', JNum (Fin 7)), (''upvotes'', JNum (Fin (- 5))),
                        (''downvotes'', JNum (Fin 2)), (''edited'', JNum (Fin 0)),
                        (''votes'', JNum (Fin (- 7))), (''timestampISO'', JStr ''undefined''),
                        (''editedISO'', JStr [])]] []), (''uid'', JNum (Fin 1))]"
  have g: "getPosts_payload silent_hook_env (elems (JArr [JNum (Fin 7)] [])) (JNum (Fin 1)) stored_world
             = (Inr ?payload, logged (GetObjects [''post:7'']) stored_world)"
    by (simp add: getPosts_payload_def db_getObjects_def backend_read_def stored_world_def
      empty_world_def sample_env_def silent_hook_env_def decoratePost_def decorate_fields_def andThen_def js_or_def
      parseInt10_def parseInt_str_def is_ws_def is_digit_def digits_val_def digit_val_def
      num_sub_def num_add_def round_double_def num_strict_eq_def int_to_string_def print_nat_def
      nat_to_string.simps digit_char_def)
  have h: "fireHook silent_hook_env ''filter:post.getPosts'' ?payload = Inr JUndefined"
    by (simp add: silent_hook_env_def)
  have "getPostsByPids silent_hook_env (JArr [JNum (Fin 7)] []) (JNum (Fin 1)) stored_world
          = (Inr (JArr [] []), logged (GetObjects [''post:7'']) stored_world)"
    using g h getPostsByPids_malformed_hook
      [of "JArr [JNum (Fin 7)] []" silent_hook_env "JNum (Fin 1)" stored_world ?payload
          "logged (GetObjects [''post:7'']) stored_world" JUndefined]
    by simp
  moreover have k: "fst (getPostsByPids sample_env (JArr [JNum (Fin 7), JNum (Fin 8)] []) (JNum (Fin 1)) stored_world)
       = Inr (JArr [JObj [(''pid'', JNum (Fin 7)), (''upvotes'', JNum (Fin (- 5))),
                        (''downvotes'', JNum (Fin 2)), (''edited'', JNum (Fin 0)),
                        (''votes'', JNum (Fin (- 7))), (''timestampISO'', JStr ''undefined''),
                        (''editedISO'', JStr [])]] [])"
    by (simp add: getPostsByPids_def getPosts_payload_def db_getObjects_def backend_read_def stored_world_def
      empty_world_def sample_env_def decoratePost_def decorate_fields_def andThen_def js_or_def
      parseInt10_def parseInt_str_def is_ws_def is_digit_def digits_val_def digit_val_def
      num_sub_def num_add_def round_double_def num_strict_eq_def getPosts_result_def int_to_string_def
      print_nat_def nat_to_string.simps digit_char_def)
  moreover note getPostsByPids_malformed_hook
      [of "JArr [JNum (Fin 7), JNum (Fin 8)] []" sample_env "JNum (Fin 1)" stored_world _ _ _
          "JArr [JObj [(''pid'', JNum (Fin 7)), (''upvotes'', JNum (Fin (- 5))),
                        (''downvotes'', JNum (Fin 2)), (''edited'', JNum (Fin 0)),
                        (''votes'', JNum (Fin (- 7))), (''timestampISO'', JStr ''undefined''),
                        (''editedISO'', JStr [])]] []"]
  ultimately show ?thesis
    using h by simp
qed

subsection \<open>\<^verbatim>\<open>utils.isNumber\<close> on integers\<close>











subsection \<open>\<^verbatim>\<open>Posts.getPidIndex\<close> and \<^verbatim>\<open>Posts.getPostIndices\<close>\<close>






lemma rank_answer_logged [simp]: "rank_answer (logged c w) key m = rank_answer w key m"
  by (simp add: rank_answer_def split: option.splits)



lemma to_string_samples:
  "to_string (JNum (Fin 1)) = ''1''" "to_string (JNum (Fin 7)) = ''7''"
  "to_string (JNum (Fin 21)) = ''21''" "to_string (JNum (Fin 22)) = ''22''"
  by (simp_all add: int_to_string_def print_nat_def nat_to_string.simps digit_char_def round_double_def)

lemma healthy_topic_world: "healthy topic_world"
  by (simp add: healthy_def topic_world_def empty_world_def)

lemma topic_world_sets:
  "zsets topic_world ''tid:1:posts:votes'' = [(JNum (Fin 3), JNum (Fin 2)), (JNum (Fin 2), JNum (Fin 4))]"
  "zsets topic_world ''tid:1:posts'' =
     [(JNum (Fin 1), JNum (Fin 100)), (JNum (Fin 2), JNum (Fin 200)), (JNum (Fin 3), JNum (Fin 300))]"
  "zsets topic_world ''topics:votes'' = []" "zsets topic_world ''cid:7:tids:votes'' = []"
  "zsets topic_world ''posts:votes'' = []"
  "zsets topic_world ''uid:21:posts:votes'' = [(JNum (Fin 3), JNum (Fin 2))]"
  "malformed topic_world key m = None"
  by (simp_all add: topic_world_def empty_world_def)






lemma post_P1_fields:
  "field_of post_P1 ''pid'' = JNum (Fin 1)" "field_of post_P1 ''tid'' = JNum (Fin 1)"
  "field_of post_P1 ''uid'' = JNum (Fin 21)" "field_of post_P1 ''votes'' = JNum (Fin 3)"
  "field_of post_P1 ''upvotes'' = JNum (Fin 4)" "field_of post_P1 ''downvotes'' = JNum (Fin 1)"
  by (simp_all add: post_P1_def)

lemma post_P2_fields:
  "field_of post_P2 ''pid'' = JNum (Fin 2)" "field_of post_P2 ''tid'' = JNum (Fin 1)"
  "field_of post_P2 ''uid'' = JNum (Fin 22)" "field_of post_P2 ''votes'' = JNum (Fin 5)"
  "field_of post_P2 ''upvotes'' = JNum (Fin 5)" "field_of post_P2 ''downvotes'' = JNum (Fin 0)"
  by (simp_all add: post_P2_def)

lemma post_P3_fields:
  "field_of post_P3 ''pid'' = JNum (Fin 3)" "field_of post_P3 ''tid'' = JNum (Fin 1)"
  "field_of post_P3 ''uid'' = JNum (Fin 21)" "field_of post_P3 ''votes'' = JNum (Fin (- 1))"
  by (simp_all add: post_P3_def)


subsection \<open>The writes of \<^verbatim>\<open>Posts.updatePostVoteCount\<close>\<close>

lemma map_of_zinsert:
  "m \<notin> fst ` set es \<Longrightarrow> map_of (zinsert m s es) = (map_of es)(m \<mapsto> s)"
proof (induction es)
  case Nil
  show ?case by simp
next
  case (Cons e es)
  then have "m \<noteq> fst e" and "m \<notin> fst ` set es"
    by auto
  with Cons.IH show ?case
    by (cases e) (auto simp: fun_upd_twist)
qed

lemma zscore_zadd: "zscore (zadd m s es) m' = (if m' = m then Some s else zscore es m')"
  by (simp add: zscore_def zadd_def map_of_zinsert delete_notin_dom delete_conv')

lemma zscore_zrem: "zscore (zrem m es) m' = (if m' = m then None else zscore es m')"
  by (simp add: zscore_def zrem_def delete_conv')

lemma added_world [simp]:
  "zsets (added key s m w) = (zsets w)(key := zadd m s (zsets w key))"
  "objects (added key s m w) = objects w"
  "topics (added key s m w) = topics w"
  "calls (added key s m w) = calls w @ [SortedSetAdd key s m]"
  "healthy (added key s m w) = healthy w"
  by (simp_all add: added_def)

lemma removed_world [simp]:
  "zsets (removed key m w) = (zsets w)(key := zrem m (zsets w key))"
  "objects (removed key m w) = objects w"
  "topics (removed key m w) = topics w"
  "calls (removed key m w) = calls w @ [SortedSetRemove key m]"
  "healthy (removed key m w) = healthy w"
  by (simp_all add: removed_def)

lemma topic_stored_world [simp]:
  "zsets (topic_stored tid data w) = zsets w"
  "objects (topic_stored tid data w) = objects w"
  "topics (topic_stored tid data w) = (topics w)(tid := store_fields data (topics w tid))"
  "calls (topic_stored tid data w) = calls w @ [SetTopicFields tid data]"
  "healthy (topic_stored tid data w) = healthy w"
  by (simp_all add: topic_stored_def)

lemma post_stored_world [simp]:
  "zsets (post_stored pid data w) = zsets w"
  "topics (post_stored pid data w) = topics w"
  "calls (post_stored pid data w) = calls w @ [SetPostFields pid data]"
  "healthy (post_stored pid data w) = healthy w"
  by (simp_all add: post_stored_def)

lemma writes_healthy:
  assumes "healthy w"
  shows "db_sortedSetAdd key s m w = (Inr (), added key s m w)"
    and "db_sortedSetRemove key m w = (Inr (), removed key m w)"
    and "topics_setTopicFields tid data w = (Inr (), topic_stored tid data w)"
    and "setPostFields pid data w = (Inr (), post_stored pid data w)"
  using assms
  by (simp_all add: db_sortedSetAdd_def db_sortedSetRemove_def topics_setTopicFields_def
      setPostFields_def backend_write_healthy added_def removed_def topic_stored_def post_stored_def)

lemma no_error [simp]: "first_error w [Inr (), Inr (), Inr ()] = Inr ()"
  by (simp add: first_error_def)

lemma one_error [simp]: "first_error w [Inr (), r, Inr (), Inr ()] = r"
  by (cases r) (simp_all add: first_error_def)

lemma user_index_updated_world [simp]:
  "topics (user_index_updated postData w) = topics w"
  "objects (user_index_updated postData w) = objects w"
  "topic_field (user_index_updated postData w) tid name = topic_field w tid name"
  "healthy (user_index_updated postData w) = healthy w"
  by (simp_all add: user_index_updated_def topic_field_def)

lemma updateUserVotes_healthy:
  "healthy w \<Longrightarrow> updateUserVotes postData w = (Inr (), user_index_updated postData w)"
  by (simp add: updateUserVotes_def user_index_updated_def writes_healthy del: to_string.simps)

text \<open>
  The call when the guard of line 153 lets the post through and the backend answers:
  what is left is the second half of the second task.
\<close>

lemma updatePostVoteCount_run:
  assumes "truthy (field_of postData ''pid'')" "truthy (field_of postData ''tid'')" "healthy w"
  shows "updatePostVoteCount postData w =
    updateTopicVotes postData
       (JObj [(''mainPid'', topic_field w (field_of postData ''tid'') ''mainPid''),
              (''cid'', topic_field w (field_of postData ''tid'') ''cid'')])
       (post_stored (field_of postData ''pid'')
          [(''upvotes'', field_of postData ''upvotes''), (''downvotes'', field_of postData ''downvotes'')]
          (added ''posts:votes'' (field_of postData ''votes'') (field_of postData ''pid'')
             (logged (GetTopicFields (field_of postData ''tid'') [''mainPid'', ''cid''])
                (user_index_updated postData w))))"
proof -
  from assms(1) have "truthy postData"
    by (cases postData) auto
  with assms show ?thesis
    by (simp add: updatePostVoteCount_def updateUserVotes_healthy topics_getTopicFields_def
        backend_read_healthy writes_healthy split: prod.splits)
qed

lemma user_index_updated_zsets:
  "key \<noteq> ''uid:'' @ to_string (field_of postData ''uid'') @ '':posts:votes'' \<Longrightarrow>
   zsets (user_index_updated postData w) key = zsets w key"
  by (simp add: user_index_updated_def del: to_string.simps)

lemma user_index_updated_calls:
  "\<exists>cs. calls (user_index_updated postData w) = calls w @ cs
     \<and> (\<forall>c \<in> set cs. c = SortedSetAdd (''uid:'' @ to_string (field_of postData ''uid'') @ '':posts:votes'')
                                (field_of postData ''votes'') (field_of postData ''pid'')
                     \<or> c = SortedSetRemove (''uid:'' @ to_string (field_of postData ''uid'') @ '':posts:votes'')
                                (field_of postData ''pid''))"
  by (simp add: user_index_updated_def del: to_string.simps)

lemma store_fields_two:
  "a \<noteq> b \<Longrightarrow> map_of (store_fields [(a, x), (b, y)] old) a = Some x"
  "map_of (store_fields [(a, x), (b, y)] old) b = Some y"
  by (simp_all add: store_fields_def update_conv')

lemma updateTopicVotes_main:
  assumes "main_post postData w" "healthy w3"
  shows "updateTopicVotes postData
       (JObj [(''mainPid'', topic_field w (field_of postData ''tid'') ''mainPid''),
              (''cid'', topic_field w (field_of postData ''tid'') ''cid'')]) w3 =
     (Inr (),
      added (''cid:'' @ to_string (topic_field w (field_of postData ''tid'') ''cid'') @ '':tids:votes'')
        (field_of postData ''votes'') (field_of postData ''tid'')
        (added ''topics:votes'' (field_of postData ''votes'') (field_of postData ''tid'')
           (topic_stored (field_of postData ''tid'')
              [(''upvotes'', field_of postData ''upvotes''), (''downvotes'', field_of postData ''downvotes'')] w3)))"
  using assms by (simp add: updateTopicVotes_def main_post_def writes_healthy del: to_string.simps)

lemma updateTopicVotes_other:
  assumes "\<not> main_post postData w" "healthy w3"
  shows "updateTopicVotes postData
       (JObj [(''mainPid'', topic_field w (field_of postData ''tid'') ''mainPid''),
              (''cid'', topic_field w (field_of postData ''tid'') ''cid'')]) w3 =
     (Inr (),
      added (''tid:'' @ to_string (field_of postData ''tid'') @ '':posts:votes'')
        (field_of postData ''votes'') (field_of postData ''pid'') w3)"
  using assms by (simp add: updateTopicVotes_def main_post_def writes_healthy del: to_string.simps)

text \<open>
  C1: when the backend answers, for a post with \<open>pid\<close> and \<open>tid\<close> that is the main post of
  its topic, \<^verbatim>\<open>updatePostVoteCount\<close> calls back without an error, and afterwards the topic
  stores the upvotes and downvotes of the post, the topic has the votes of the post as
  its score in \<^verbatim>\<open>topics:votes\<close> and in \<^verbatim>\<open>cid:<cid>:tids:votes\<close>, where \<open>cid\<close> is the category
  that the topic stores, the post has its votes as score in \<^verbatim>\<open>posts:votes\<close>, and the set
  \<^verbatim>\<open>tid:<tid>:posts:votes\<close> is as before: no call adds anything to it.
\<close>

theorem updatePostVoteCount_main_post:
  assumes pid: "truthy (field_of postData ''pid'')" and tid: "truthy (field_of postData ''tid'')"
    and main: "main_post postData w" and ok: "healthy w"
  shows "\<exists>w'. updatePostVoteCount postData w = (Inr (), w')
    \<and> topic_field w' (field_of postData ''tid'') ''upvotes'' = field_of postData ''upvotes''
    \<and> topic_field w' (field_of postData ''tid'') ''downvotes'' = field_of postData ''downvotes''
    \<and> zscore (zsets w' ''topics:votes'') (field_of postData ''tid'') = Some (field_of postData ''votes'')
    \<and> zscore (zsets w' (''cid:'' @ to_string (topic_field w (field_of postData ''tid'') ''cid'') @ '':tids:votes''))
         (field_of postData ''tid'') = Some (field_of postData ''votes'')
    \<and> zscore (zsets w' ''posts:votes'') (field_of postData ''pid'') = Some (field_of postData ''votes'')
    \<and> zsets w' (''tid:'' @ to_string (field_of postData ''tid'') @ '':posts:votes'')
        = zsets w (''tid:'' @ to_string (field_of postData ''tid'') @ '':posts:votes'')
    \<and> (\<forall>s m. SortedSetAdd (''tid:'' @ to_string (field_of postData ''tid'') @ '':posts:votes'') s m
               \<notin> set (new_calls w w'))"
proof -
  let ?tid = "field_of postData ''tid''" and ?pid = "field_of postData ''pid''"
  let ?votes = "field_of postData ''votes''"
  let ?data = "[(''upvotes'', field_of postData ''upvotes''), (''downvotes'', field_of postData ''downvotes'')]"
  let ?ckey = "''cid:'' @ to_string (topic_field w ?tid ''cid'') @ '':tids:votes''"
  let ?tkey = "''tid:'' @ to_string ?tid @ '':posts:votes''"
  let ?ukey = "''uid:'' @ to_string (field_of postData ''uid'') @ '':posts:votes''"
  let ?w0 = "user_index_updated postData w"
  let ?w3 = "post_stored ?pid ?data
               (added ''posts:votes'' ?votes ?pid (logged (GetTopicFields ?tid [''mainPid'', ''cid'']) ?w0))"
  let ?w' = "added ?ckey ?votes ?tid (added ''topics:votes'' ?votes ?tid (topic_stored ?tid ?data ?w3))"
  have h3: "healthy ?w3"
    using ok by simp
  have run: "updatePostVoteCount postData w = (Inr (), ?w')"
    by (simp only: updatePostVoteCount_run [OF pid tid ok] updateTopicVotes_main [OF main h3])
  have t1: "topic_field ?w' ?tid ''upvotes'' = field_of postData ''upvotes''"
    by (simp add: topic_field_def store_fields_two del: to_string.simps)
  have t2: "topic_field ?w' ?tid ''downvotes'' = field_of postData ''downvotes''"
    by (simp add: topic_field_def store_fields_two del: to_string.simps)
  have z1: "zscore (zsets ?w' ''topics:votes'') ?tid = Some ?votes"
    by (simp add: zscore_zadd del: to_string.simps)
  have z2: "zscore (zsets ?w' ?ckey) ?tid = Some ?votes"
    by (simp add: zscore_zadd del: to_string.simps)
  have z3: "zscore (zsets ?w' ''posts:votes'') ?pid = Some ?votes"
    by (simp add: zscore_zadd del: to_string.simps)
  have "?tkey \<noteq> ?ukey"
    by simp
  then have z4: "zsets ?w' ?tkey = zsets w ?tkey"
    by (simp add: user_index_updated_zsets del: to_string.simps)
  obtain cs where cs: "calls ?w0 = calls w @ cs"
    and user: "\<forall>c \<in> set cs. c = SortedSetAdd ?ukey ?votes ?pid \<or> c = SortedSetRemove ?ukey ?pid"
    using user_index_updated_calls [of postData w] by blast
  have n: "new_calls w ?w' =
      cs @ [GetTopicFields ?tid [''mainPid'', ''cid''], SortedSetAdd ''posts:votes'' ?votes ?pid,
            SetPostFields ?pid ?data, SetTopicFields ?tid ?data,
            SortedSetAdd ''topics:votes'' ?votes ?tid, SortedSetAdd ?ckey ?votes ?tid]"
    by (simp add: new_calls_def cs del: to_string.simps)
  have l: "\<forall>s m. SortedSetAdd ?tkey s m \<notin> set (new_calls w ?w')"
    using user n by (auto simp del: to_string.simps)
  from run t1 t2 z1 z2 z3 z4 l show ?thesis
    by (intro exI [of _ ?w']) blast
qed

text \<open>
  C2: when the backend answers, for a post with \<open>pid\<close> and \<open>tid\<close> that is not the main post
  of its topic, \<^verbatim>\<open>updatePostVoteCount\<close> calls back without an error, and afterwards the post
  has its votes as score in \<^verbatim>\<open>tid:<tid>:posts:votes\<close> and in \<^verbatim>\<open>posts:votes\<close>, while
  \<^verbatim>\<open>topics:votes\<close>, every set \<^verbatim>\<open>cid:...:tids:votes\<close> and the stored fields of every topic are
  as before: no call writes to them.
\<close>

theorem updatePostVoteCount_reply:
  assumes pid: "truthy (field_of postData ''pid'')" and tid: "truthy (field_of postData ''tid'')"
    and other: "\<not> main_post postData w" and ok: "healthy w"
  shows "\<exists>w'. updatePostVoteCount postData w = (Inr (), w')
    \<and> zscore (zsets w' (''tid:'' @ to_string (field_of postData ''tid'') @ '':posts:votes''))
         (field_of postData ''pid'') = Some (field_of postData ''votes'')
    \<and> zscore (zsets w' ''posts:votes'') (field_of postData ''pid'') = Some (field_of postData ''votes'')
    \<and> zsets w' ''topics:votes'' = zsets w ''topics:votes''
    \<and> (\<forall>c. zsets w' (''cid:'' @ c @ '':tids:votes'') = zsets w (''cid:'' @ c @ '':tids:votes''))
    \<and> topics w' = topics w
    \<and> (\<forall>t d. SetTopicFields t d \<notin> set (new_calls w w'))
    \<and> (\<forall>s m. SortedSetAdd ''topics:votes'' s m \<notin> set (new_calls w w'))
    \<and> (\<forall>c s m. SortedSetAdd (''cid:'' @ c @ '':tids:votes'') s m \<notin> set (new_calls w w'))"
proof -
  let ?tid = "field_of postData ''tid''" and ?pid = "field_of postData ''pid''"
  let ?votes = "field_of postData ''votes''"
  let ?data = "[(''upvotes'', field_of postData ''upvotes''), (''downvotes'', field_of postData ''downvotes'')]"
  let ?tkey = "''tid:'' @ to_string ?tid @ '':posts:votes''"
  let ?ukey = "''uid:'' @ to_string (field_of postData ''uid'') @ '':posts:votes''"
  let ?w0 = "user_index_updated postData w"
  let ?w3 = "post_stored ?pid ?data
               (added ''posts:votes'' ?votes ?pid (logged (GetTopicFields ?tid [''mainPid'', ''cid'']) ?w0))"
  let ?w' = "added ?tkey ?votes ?pid ?w3"
  have h3: "healthy ?w3"
    using ok by simp
  have run: "updatePostVoteCount postData w = (Inr (), ?w')"
    by (simp only: updatePostVoteCount_run [OF pid tid ok] updateTopicVotes_other [OF other h3])
  have z1: "zscore (zsets ?w' ?tkey) ?pid = Some ?votes"
    by (simp add: zscore_zadd del: to_string.simps)
  have z2: "zscore (zsets ?w' ''posts:votes'') ?pid = Some ?votes"
    by (simp add: zscore_zadd del: to_string.simps)
  have "''topics:votes'' \<noteq> ?ukey"
    by simp
  then have z3: "zsets ?w' ''topics:votes'' = zsets w ''topics:votes''"
    by (simp add: user_index_updated_zsets del: to_string.simps)
  have z4: "zsets ?w' (''cid:'' @ c @ '':tids:votes'') = zsets w (''cid:'' @ c @ '':tids:votes'')" for c
  proof -
    have "''cid:'' @ c @ '':tids:votes'' \<noteq> ?ukey"
      by simp
    then show ?thesis
      by (simp add: user_index_updated_zsets del: to_string.simps)
  qed
  have t: "topics ?w' = topics w"
    by simp
  obtain cs where cs: "calls ?w0 = calls w @ cs"
    and user: "\<forall>c \<in> set cs. c = SortedSetAdd ?ukey ?votes ?pid \<or> c = SortedSetRemove ?ukey ?pid"
    using user_index_updated_calls [of postData w] by blast
  have n: "new_calls w ?w' =
      cs @ [GetTopicFields ?tid [''mainPid'', ''cid''], SortedSetAdd ''posts:votes'' ?votes ?pid,
            SetPostFields ?pid ?data, SortedSetAdd ?tkey ?votes ?pid]"
    by (simp add: new_calls_def cs del: to_string.simps)
  have l1: "\<forall>t d. SetTopicFields t d \<notin> set (new_calls w ?w')"
    using user n by (auto simp del: to_string.simps)
  have l2: "\<forall>s m. SortedSetAdd ''topics:votes'' s m \<notin> set (new_calls w ?w')"
    using user n by (auto simp del: to_string.simps)
  have l3: "\<forall>c s m. SortedSetAdd (''cid:'' @ c @ '':tids:votes'') s m \<notin> set (new_calls w ?w')"
    using user n by (auto simp del: to_string.simps)
  from run z1 z2 z3 z4 t l1 l2 l3 show ?thesis
    by (intro exI [of _ ?w']) blast
qed

lemma js_gt_zero_number: "js_gt_zero (JNum n) = positive n"
  by (simp add: js_gt_zero_def num_kind_positive)

text \<open>
  C3: when the backend answers, for a post with \<open>pid\<close>, \<open>tid\<close>, a set \<open>uid\<close> and a number of
  votes, after \<^verbatim>\<open>updatePostVoteCount\<close> the post has its votes as score in the set
  \<^verbatim>\<open>uid:<uid>:posts:votes\<close> of its author when the votes are above zero, and is absent from
  that set otherwise, whatever the set held before.
\<close>

theorem updatePostVoteCount_user_index:
  assumes pid: "truthy (field_of postData ''pid'')" and tid: "truthy (field_of postData ''tid'')"
    and uid: "truthy (field_of postData ''uid'')" and ok: "healthy w"
    and votes: "field_of postData ''votes'' = JNum n"
  shows "\<exists>w'. updatePostVoteCount postData w = (Inr (), w')
    \<and> (positive n \<longrightarrow>
         zscore (zsets w' (''uid:'' @ to_string (field_of postData ''uid'') @ '':posts:votes''))
           (field_of postData ''pid'') = Some (JNum n))
    \<and> (\<not> positive n \<longrightarrow>
         zscore (zsets w' (''uid:'' @ to_string (field_of postData ''uid'') @ '':posts:votes''))
           (field_of postData ''pid'') = None)"
proof -
  let ?key = "''uid:'' @ to_string (field_of postData ''uid'') @ '':posts:votes''"
  let ?tid = "field_of postData ''tid''" and ?pid = "field_of postData ''pid''"
  let ?votes = "field_of postData ''votes''"
  let ?data = "[(''upvotes'', field_of postData ''upvotes''), (''downvotes'', field_of postData ''downvotes'')]"
  let ?ckey = "''cid:'' @ to_string (topic_field w ?tid ''cid'') @ '':tids:votes''"
  let ?tkey = "''tid:'' @ to_string ?tid @ '':posts:votes''"
  let ?w0 = "user_index_updated postData w"
  let ?w3 = "post_stored ?pid ?data
               (added ''posts:votes'' ?votes ?pid (logged (GetTopicFields ?tid [''mainPid'', ''cid'']) ?w0))"
  have h3: "healthy ?w3"
    using ok by simp
  have k: "?key \<noteq> ''posts:votes''" "?key \<noteq> ''topics:votes''" "?key \<noteq> ?ckey" "?key \<noteq> ?tkey"
    by simp_all
  have "\<exists>w'. updatePostVoteCount postData w = (Inr (), w') \<and> zsets w' ?key = zsets ?w0 ?key"
  proof (cases "main_post postData w")
    case True
    have "updatePostVoteCount postData w =
        (Inr (), added ?ckey ?votes ?tid (added ''topics:votes'' ?votes ?tid (topic_stored ?tid ?data ?w3)))"
      by (simp only: updatePostVoteCount_run [OF pid tid ok] updateTopicVotes_main [OF True h3])
    moreover have "zsets (added ?ckey ?votes ?tid
                   (added ''topics:votes'' ?votes ?tid (topic_stored ?tid ?data ?w3))) ?key = zsets ?w0 ?key"
      using k by (simp del: to_string.simps)
    ultimately show ?thesis
      by blast
  next
    case False
    have "updatePostVoteCount postData w = (Inr (), added ?tkey ?votes ?pid ?w3)"
      by (simp only: updatePostVoteCount_run [OF pid tid ok] updateTopicVotes_other [OF False h3])
    moreover have "zsets (added ?tkey ?votes ?pid ?w3) ?key = zsets ?w0 ?key"
      using k by (simp del: to_string.simps)
    ultimately show ?thesis
      by blast
  qed
  then obtain w' where run: "updatePostVoteCount postData w = (Inr (), w')"
    and z: "zsets w' ?key = zsets ?w0 ?key"
    by blast
  have a: "positive n \<Longrightarrow> zscore (zsets ?w0 ?key) ?pid = Some (JNum n)"
    using uid by (simp add: user_index_updated_def zscore_zadd votes js_gt_zero_number del: to_string.simps)
  have b: "\<not> positive n \<Longrightarrow> zscore (zsets ?w0 ?key) ?pid = None"
    using uid by (simp add: user_index_updated_def zscore_zrem votes js_gt_zero_number del: to_string.simps)
  from run z a b show ?thesis
    by (intro exI [of _ w']) auto
qed

lemma sample_topic:
  "topic_field topic_world (JNum (Fin 1)) ''mainPid'' = JNum (Fin 1)"
  "topic_field topic_world (JNum (Fin 1)) ''cid'' = JNum (Fin 7)"
  by (simp_all add: topic_field_def topic_world_def empty_world_def)

lemma parseInt10_samples:
  "parseInt10 (JNum (Fin 1)) = Fin 1" "parseInt10 (JNum (Fin 2)) = Fin 2" "parseInt10 (JNum (Fin 3)) = Fin 3"
  by (simp_all add: parseInt10_small del: to_string.simps)

theorem updatePostVoteCount_main_post_witness:
  "truthy (field_of post_P1 ''pid'') \<and> truthy (field_of post_P1 ''tid'') \<and> main_post post_P1 topic_world
   \<and> healthy topic_world
   \<and> topic_field (snd (updatePostVoteCount post_P1 topic_world)) (JNum (Fin 1)) ''upvotes'' = JNum (Fin 4)
   \<and> topic_field (snd (updatePostVoteCount post_P1 topic_world)) (JNum (Fin 1)) ''downvotes'' = JNum (Fin 1)
   \<and> zscore (zsets (snd (updatePostVoteCount post_P1 topic_world)) ''topics:votes'') (JNum (Fin 1))
       = Some (JNum (Fin 3))
   \<and> zscore (zsets (snd (updatePostVoteCount post_P1 topic_world)) ''cid:7:tids:votes'') (JNum (Fin 1))
       = Some (JNum (Fin 3))
   \<and> zscore (zsets (snd (updatePostVoteCount post_P1 topic_world)) ''posts:votes'') (JNum (Fin 1))
       = Some (JNum (Fin 3))
   \<and> zsets (snd (updatePostVoteCount post_P1 topic_world)) ''tid:1:posts:votes''
       = [(JNum (Fin 3), JNum (Fin 2)), (JNum (Fin 2), JNum (Fin 4))]"
proof -
  have h: "truthy (field_of post_P1 ''pid'')" "truthy (field_of post_P1 ''tid'')"
    by (simp_all add: post_P1_fields)
  have m: "main_post post_P1 topic_world"
    by (simp add: main_post_def post_P1_fields sample_topic parseInt10_samples num_strict_eq_def
        round_double_def)
  from updatePostVoteCount_main_post [OF h m healthy_topic_world] obtain w' where
    r: "updatePostVoteCount post_P1 topic_world = (Inr (), w')"
    and a: "topic_field w' (field_of post_P1 ''tid'') ''upvotes'' = field_of post_P1 ''upvotes''"
      "topic_field w' (field_of post_P1 ''tid'') ''downvotes'' = field_of post_P1 ''downvotes''"
      "zscore (zsets w' ''topics:votes'') (field_of post_P1 ''tid'') = Some (field_of post_P1 ''votes'')"
      "zscore (zsets w' (''cid:'' @ to_string (topic_field topic_world (field_of post_P1 ''tid'') ''cid'')
                           @ '':tids:votes''))
         (field_of post_P1 ''tid'') = Some (field_of post_P1 ''votes'')"
      "zscore (zsets w' ''posts:votes'') (field_of post_P1 ''pid'') = Some (field_of post_P1 ''votes'')"
      "zsets w' (''tid:'' @ to_string (field_of post_P1 ''tid'') @ '':posts:votes'')
        = zsets topic_world (''tid:'' @ to_string (field_of post_P1 ''tid'') @ '':posts:votes'')"
    by blast
  from a have "topic_field w' (JNum (Fin 1)) ''upvotes'' = JNum (Fin 4)"
    "topic_field w' (JNum (Fin 1)) ''downvotes'' = JNum (Fin 1)"
    "zscore (zsets w' ''topics:votes'') (JNum (Fin 1)) = Some (JNum (Fin 3))"
    "zscore (zsets w' ''cid:7:tids:votes'') (JNum (Fin 1)) = Some (JNum (Fin 3))"
    "zscore (zsets w' ''posts:votes'') (JNum (Fin 1)) = Some (JNum (Fin 3))"
    "zsets w' ''tid:1:posts:votes'' = [(JNum (Fin 3), JNum (Fin 2)), (JNum (Fin 2), JNum (Fin 4))]"
    by (simp_all add: post_P1_fields sample_topic to_string_samples topic_world_sets del: to_string.simps)
  with r h m healthy_topic_world show ?thesis
    by simp
qed

theorem updatePostVoteCount_reply_witness:
  "truthy (field_of post_P2 ''pid'') \<and> truthy (field_of post_P2 ''tid'') \<and> \<not> main_post post_P2 topic_world
   \<and> healthy topic_world
   \<and> zscore (zsets topic_world ''tid:1:posts:votes'') (JNum (Fin 2)) = Some (JNum (Fin 4))
   \<and> zscore (zsets (snd (updatePostVoteCount post_P2 topic_world)) ''tid:1:posts:votes'') (JNum (Fin 2))
       = Some (JNum (Fin 5))
   \<and> zscore (zsets topic_world ''posts:votes'') (JNum (Fin 2)) = None
   \<and> zscore (zsets (snd (updatePostVoteCount post_P2 topic_world)) ''posts:votes'') (JNum (Fin 2))
       = Some (JNum (Fin 5))
   \<and> zsets (snd (updatePostVoteCount post_P2 topic_world)) ''topics:votes'' = []
   \<and> zsets (snd (updatePostVoteCount post_P2 topic_world)) ''cid:7:tids:votes'' = []
   \<and> topics (snd (updatePostVoteCount post_P2 topic_world)) = topics topic_world"
proof -
  have h: "truthy (field_of post_P2 ''pid'')" "truthy (field_of post_P2 ''tid'')"
    by (simp_all add: post_P2_fields)
  have m: "\<not> main_post post_P2 topic_world"
    by (simp add: main_post_def post_P2_fields sample_topic parseInt10_samples num_strict_eq_def
        round_double_def)
  have before: "zscore (zsets topic_world ''tid:1:posts:votes'') (JNum (Fin 2)) = Some (JNum (Fin 4))"
    "zscore (zsets topic_world ''posts:votes'') (JNum (Fin 2)) = None"
    by (simp_all add: topic_world_sets zscore_def)
  from updatePostVoteCount_reply [OF h m healthy_topic_world] obtain w' where
    r: "updatePostVoteCount post_P2 topic_world = (Inr (), w')"
    and a: "zscore (zsets w' (''tid:'' @ to_string (field_of post_P2 ''tid'') @ '':posts:votes''))
              (field_of post_P2 ''pid'') = Some (field_of post_P2 ''votes'')"
    and b: "zscore (zsets w' ''posts:votes'') (field_of post_P2 ''pid'') = Some (field_of post_P2 ''votes'')"
    and c: "zsets w' ''topics:votes'' = zsets topic_world ''topics:votes''"
    and d: "\<forall>c. zsets w' (''cid:'' @ c @ '':tids:votes'') = zsets topic_world (''cid:'' @ c @ '':tids:votes'')"
    and e: "topics w' = topics topic_world"
    by blast
  from d [rule_format, of "''7''"] have d': "zsets w' ''cid:7:tids:votes'' = []"
    by (simp add: topic_world_sets)
  from a b c have "zscore (zsets w' ''tid:1:posts:votes'') (JNum (Fin 2)) = Some (JNum (Fin 5))"
    "zscore (zsets w' ''posts:votes'') (JNum (Fin 2)) = Some (JNum (Fin 5))"
    "zsets w' ''topics:votes'' = []"
    by (simp_all add: post_P2_fields to_string_samples topic_world_sets del: to_string.simps)
  with r h m before d' e healthy_topic_world show ?thesis
    by simp
qed

theorem updatePostVoteCount_user_index_witness:
  "truthy (field_of post_P3 ''pid'') \<and> truthy (field_of post_P3 ''tid'') \<and> truthy (field_of post_P3 ''uid'')
   \<and> field_of post_P3 ''votes'' = JNum (Fin (- 1)) \<and> \<not> positive (Fin (- 1)) \<and> healthy topic_world
   \<and> zscore (zsets topic_world ''uid:21:posts:votes'') (JNum (Fin 3)) = Some (JNum (Fin 2))
   \<and> zscore (zsets (snd (updatePostVoteCount post_P3 topic_world)) ''uid:21:posts:votes'') (JNum (Fin 3)) = None
   \<and> truthy (field_of post_P2 ''pid'') \<and> truthy (field_of post_P2 ''tid'') \<and> truthy (field_of post_P2 ''uid'')
   \<and> field_of post_P2 ''votes'' = JNum (Fin 5) \<and> positive (Fin 5)
   \<and> zscore (zsets (snd (updatePostVoteCount post_P2 topic_world)) ''uid:22:posts:votes'') (JNum (Fin 2))
       = Some (JNum (Fin 5))"
proof -
  have h3: "truthy (field_of post_P3 ''pid'')" "truthy (field_of post_P3 ''tid'')" "truthy (field_of post_P3 ''uid'')"
    by (simp_all add: post_P3_fields)
  have h2: "truthy (field_of post_P2 ''pid'')" "truthy (field_of post_P2 ''tid'')" "truthy (field_of post_P2 ''uid'')"
    by (simp_all add: post_P2_fields)
  have v3: "field_of post_P3 ''votes'' = JNum (Fin (- 1))" and v2: "field_of post_P2 ''votes'' = JNum (Fin 5)"
    by (simp_all add: post_P3_fields post_P2_fields)
  have before: "zscore (zsets topic_world ''uid:21:posts:votes'') (JNum (Fin 3)) = Some (JNum (Fin 2))"
    by (simp add: topic_world_sets zscore_def)
  from updatePostVoteCount_user_index [OF h3 healthy_topic_world v3]
  have a3: "zscore (zsets (snd (updatePostVoteCount post_P3 topic_world)) ''uid:21:posts:votes'') (JNum (Fin 3)) = None"
    by (auto simp: post_P3_fields to_string_samples simp del: to_string.simps)
  from updatePostVoteCount_user_index [OF h2 healthy_topic_world v2]
  have a2: "zscore (zsets (snd (updatePostVoteCount post_P2 topic_world)) ''uid:22:posts:votes'') (JNum (Fin 2))
       = Some (JNum (Fin 5))"
    by (auto simp: post_P2_fields to_string_samples simp del: to_string.simps)
  show ?thesis
    using h3 h2 v3 v2 before a3 a2 healthy_topic_world by simp
qed

subsection \<open>A failure of the backend reaches the callback\<close>

text \<open>
  The error results of the model are not idle: when the backend fails the write to
  \<^verbatim>\<open>posts:votes\<close>, \<^verbatim>\<open>updatePostVoteCount\<close> calls back with an error, and the error it calls
  back with is the error of one of its tasks.
\<close>

lemma errors_of_set: "set (errors_of rs) = {e. Inl e \<in> set rs}"
  by (induction rs rule: errors_of.induct) auto

lemma first_error_Inl: "Inl e \<in> set rs \<Longrightarrow> \<exists>e'. first_error w rs = Inl e'"
  using errors_of_set [of rs] by (auto simp: first_error_def)

lemma first_error_member: "first_error w rs = Inl e \<Longrightarrow> Inl e \<in> set rs"
proof -
  assume a: "first_error w rs = Inl e"
  then have ne: "errors_of rs \<noteq> []"
    by (auto simp: first_error_def split: if_splits)
  then have "race w (errors_of rs) mod length (errors_of rs) < length (errors_of rs)"
    by simp
  then have "errors_of rs ! (race w (errors_of rs) mod length (errors_of rs)) \<in> set (errors_of rs)"
    by (rule nth_mem)
  with a ne show ?thesis
    by (simp add: first_error_def errors_of_set)
qed

lemma faults_backend [simp]:
  "faults (snd (backend_read c answer w)) = faults w"
  "(\<And>v. faults (change v) = faults v) \<Longrightarrow> faults (snd (backend_write c change w)) = faults w"
  by (simp_all add: backend_read_def backend_write_def split: option.splits)

lemma faults_writes [simp]:
  "faults (snd (db_sortedSetAdd key s m w)) = faults w"
  "faults (snd (db_sortedSetRemove key m w)) = faults w"
  "faults (snd (topics_getTopicFields tid names w)) = faults w"
  by (simp_all add: db_sortedSetAdd_def db_sortedSetRemove_def topics_getTopicFields_def)

lemma faults_updateUserVotes [simp]: "faults (snd (updateUserVotes postData w)) = faults w"
  by (simp add: updateUserVotes_def del: to_string.simps)

lemma updatePostVoteCount_surfaces_failure:
  assumes "truthy (field_of postData ''pid'')" "truthy (field_of postData ''tid'')"
    and "faults w (SortedSetAdd ''posts:votes'' (field_of postData ''votes'') (field_of postData ''pid'')) = Some e"
  shows "\<exists>e'. fst (updatePostVoteCount postData w) = Inl e'"
proof -
  from assms(1) have t: "truthy postData"
    by (cases postData) auto
  obtain r1 w1 where u: "updateUserVotes postData w = (r1, w1)"
    by (cases "updateUserVotes postData w")
  obtain td w2 where g: "topics_getTopicFields (field_of postData ''tid'') [''mainPid'', ''cid''] w1 = (td, w2)"
    by (cases "topics_getTopicFields (field_of postData ''tid'') [''mainPid'', ''cid''] w1")
  have "faults w1 = faults w"
    using faults_updateUserVotes [of postData w] u by simp
  moreover have "faults w2 = faults w1"
    using faults_writes(3) [of "field_of postData ''tid''" "[''mainPid'', ''cid'']" w1] g by simp
  ultimately have "faults w2 = faults w"
    by simp
  then have a: "db_sortedSetAdd ''posts:votes'' (field_of postData ''votes'') (field_of postData ''pid'') w2
      = (Inl e, logged (SortedSetAdd ''posts:votes'' (field_of postData ''votes'') (field_of postData ''pid'')) w2)"
    using assms(3) by (simp add: db_sortedSetAdd_def backend_write_def)
  show ?thesis
    using t assms(1,2) first_error_Inl [of e]
    by (simp add: updatePostVoteCount_def u g a split: prod.splits)
qed

end
